theory Spec2Isabelle
  imports Main "HOL-Library.Sublist"
begin

section \<open>Text constants of \<^verbatim>\<open>main.go\<close>\<close>

text \<open>
  The raw string constants of the program, byte for byte. A Go raw string starts right
  after the opening backquote, so each of them begins with a newline.
\<close>

definition cppMainTemplate :: string where
  "cppMainTemplate =
     ''\<newline>'' @
     ''#include '' @ [CHR 0x22] @ ''pch.hpp'' @ [CHR 0x22] @ ''\<newline>'' @
     ''\<newline>'' @
     ''int main() {\<newline>'' @
     ''    std::cout << '' @ [CHR 0x22] @ ''Hello, World!'' @ [CHR 0x22] @ '' << std::endl;\<newline>'' @
     ''    return 0;\<newline>'' @
     ''}\<newline>''"

definition pchTemplate :: string where
  "pchTemplate =
     ''\<newline>'' @
     ''#ifndef PCH_HPP\<newline>'' @
     ''#define PCH_HPP\<newline>'' @
     ''\<newline>'' @
     ''#include <iostream>\<newline>'' @
     ''\<newline>'' @
     ''#endif\<newline>''"

definition gitignoreTemplate :: string where
  "gitignoreTemplate =
     ''\<newline>'' @
     ''# Compiled Object files\<newline>'' @
     ''*.o\<newline>'' @
     ''*.obj\<newline>'' @
     ''\<newline>'' @
     ''# Precompiled Headers\<newline>'' @
     ''*.gch\<newline>'' @
     ''*.pch\<newline>'' @
     ''\<newline>'' @
     ''# Compiled Dynamic libraries\<newline>'' @
     ''*.so\<newline>'' @
     ''*.dylib\<newline>'' @
     ''*.dll\<newline>'' @
     ''\<newline>'' @
     ''# Compiled Static libraries\<newline>'' @
     ''*.lib\<newline>'' @
     ''*.a\<newline>'' @
     ''\<newline>'' @
     ''# Executable files\<newline>'' @
     ''*.exe\<newline>'' @
     ''*.out\<newline>'' @
     ''*.app\<newline>'' @
     ''\<newline>'' @
     ''# CMake Build\<newline>'' @
     ''/build/\<newline>'' @
     ''CMakeCache.txt\<newline>'' @
     ''CMakeFiles/\<newline>'' @
     ''cmake_install.cmake\<newline>'' @
     ''Makefile\<newline>'' @
     ''\<newline>'' @
     ''# IDE and editor files\<newline>'' @
     ''.vscode/\<newline>'' @
     ''*.swp\<newline>'' @
     ''*.swo\<newline>'' @
     ''*.idea/\<newline>'' @
     ''*.vscode/\<newline>''"

definition gitattributesTemplate :: string where
  "gitattributesTemplate =
     ''\<newline>'' @
     ''# Ensure consistent line endings\<newline>'' @
     ''* text=auto\<newline>'' @
     ''\<newline>'' @
     ''# Treat C and C++ files as text\<newline>'' @
     ''*.c text\<newline>'' @
     ''*.cpp text\<newline>'' @
     ''*.h text\<newline>'' @
     ''*.hpp text\<newline>''"

section \<open>The project descriptor\<close>

text \<open>The struct \<^verbatim>\<open>ProjectData\<close> and the five parsed command-line flags of \<^verbatim>\<open>main\<close>.\<close>

record ProjectData =
  ProjectName :: string
  Type :: string
  Lang :: string
  Standard :: string
  CMakeVersion :: string
  CMakeLang :: string
  FileExt :: string
  PackageMgr :: string

record flags =
  projectName :: string
  projectType :: string
  lang :: string
  standard :: string
  pkgmgr :: string

text \<open>The values \<^verbatim>\<open>flag.String\<close> gives to flags that are absent from the command line.\<close>

definition default_flags :: flags where
  "default_flags =
     \<lparr>projectName = '''', projectType = ''executable'', lang = ''cpp'',
      standard = ''11'', pkgmgr = ''vcpkg''\<rparr>"

section \<open>The build manifest template\<close>

text \<open>
  \<^verbatim>\<open>cmakeTemplate\<close> executed by \<^verbatim>\<open>text/template\<close> on a \<^verbatim>\<open>ProjectData\<close>. The template has no
  trim markers, so the newline before and after every action stays in the output:
  a taken branch contributes its text with both newlines, a branch not taken contributes
  nothing, and the text between two actions is copied as it is. All fields are strings
  and \<^verbatim>\<open>text/template\<close> does not escape them.
\<close>

definition cmakeTemplate :: "ProjectData \<Rightarrow> string" where
  "cmakeTemplate d =
     ''\<newline>'' @
     ''cmake_minimum_required(VERSION '' @ CMakeVersion d @ '')\<newline>'' @
     ''\<newline>'' @
     ''# Set the project name and language\<newline>'' @
     ''project('' @ ProjectName d @ '' LANGUAGES '' @ CMakeLang d @ '')\<newline>'' @
     ''\<newline>'' @
     ''# Set the project language standard\<newline>'' @
     (if Lang d = ''cpp'' then
        ''\<newline>'' @ ''set(CMAKE_CXX_STANDARD '' @ Standard d @ '')\<newline>''
      else if Lang d = ''c'' then
        ''\<newline>'' @ ''set(CMAKE_C_STANDARD '' @ Standard d @ '')\<newline>''
      else []) @
     ''\<newline>'' @
     ''\<newline>'' @
     ''# Enable precompiled headers\<newline>'' @
     (if Lang d = ''cpp'' then
        ''\<newline>'' @ ''set(CMAKE_PCH_ENABLED ON)\<newline>''
      else []) @
     ''\<newline>'' @
     ''\<newline>'' @
     ''# Add the executable or library\<newline>'' @
     (if Type d = ''executable'' then
        ''\<newline>'' @ ''add_executable('' @ ProjectName d @ '' src/main.'' @ FileExt d @ '')\<newline>''
      else if Type d = ''library'' then
        ''\<newline>'' @ ''add_library('' @ ProjectName d @ '' src/main.'' @ FileExt d @ '')\<newline>''
      else []) @
     ''\<newline>'' @
     ''\<newline>'' @
     ''# Add precompiled header\<newline>'' @
     (if Lang d = ''cpp'' then
        ''\<newline>'' @ ''target_precompile_headers('' @ ProjectName d @ '' PRIVATE include/pch.hpp)\<newline>''
      else []) @
     ''\<newline>''"

section \<open>The world the program runs in\<close>

text \<open>
  A path is the list of elements the program hands to \<^verbatim>\<open>filepath.Join\<close>; its parent is
  the list without the last element and the empty list is the working directory. The
  first element is always the project name: it stands for the project directory,
  whatever ancestors it has. The file system maps a path to what is there.
\<close>

type_synonym path = "string list"

datatype node = Dir | File string

type_synonym filesys = "path \<Rightarrow> node option"

text \<open>An external command: program, arguments and working directory (\<^verbatim>\<open>cmd.Dir\<close>).\<close>

datatype command = Command string "string list" string

text \<open>
  What a run has done so far: the file system, the chunks written to standard output,
  and the external commands started, each with its error (\<open>None\<close> for exit status 0).
\<close>

record world =
  fs :: filesys
  stdout :: "string list"
  procs :: "(command \<times> string option) list"

datatype fs_op = OpStat path | OpLstat path | OpMkdir path | OpCreate path

text \<open>
  What the program cannot decide and the machine does:
  \<^item> \<open>cmake_run\<close>: the result of \<^verbatim>\<open>exec.Command("cmake", "--version").Output()\<close>, an error
    or the bytes of its standard output;
  \<^item> \<open>proc\<close>: the error of any other external command and what it does to the files;
  \<^item> \<open>fault\<close>: an I/O error of the operating system (permissions, full disk) on top of
    the errors that follow from the shape of the file system;
  \<^item> \<open>write_fault\<close>: the same for writing to an open file, with the number of bytes that
    reached the file before the error;
  \<^item> \<open>stdin\<close>: the bytes on standard input;
  \<^item> \<open>path_sep\<close>: \<^verbatim>\<open>os.PathSeparator\<close>;
  \<^item> \<open>json_string\<close>: the string literal \<^verbatim>\<open>encoding/json\<close> writes for a Go string.
\<close>

record env =
  cmake_run :: "string + string"
  proc :: "command \<Rightarrow> filesys \<Rightarrow> string option \<times> filesys"
  fault :: "fs_op \<Rightarrow> string option"
  write_fault :: "path \<Rightarrow> (string \<times> nat) option"
  stdin :: string
  path_sep :: char
  json_string :: "string \<Rightarrow> string"

text \<open>
  A procedure of the program either ends the process with \<^verbatim>\<open>os.Exit\<close> or returns to its
  caller; both carry the world as it is at that moment.
\<close>

datatype outcome = Exit nat world | Return world

definition andThen :: "outcome \<Rightarrow> (world \<Rightarrow> outcome) \<Rightarrow> outcome" where
  "andThen r k = (case r of Exit c w \<Rightarrow> Exit c w | Return w \<Rightarrow> k w)"

definition print :: "string \<Rightarrow> world \<Rightarrow> world" where
  "print s w = w\<lparr>stdout := stdout w @ [s]\<rparr>"

text \<open>\<^verbatim>\<open>cmd.Run()\<close>: the command is started, recorded, and its effect on the files applied.\<close>

definition cmd_Run :: "env \<Rightarrow> command \<Rightarrow> world \<Rightarrow> string option \<times> world" where
  "cmd_Run e c w =
     (case proc e c (fs w) of
        (r, f') \<Rightarrow> (r, w\<lparr>fs := f', procs := procs w @ [(c, r)]\<rparr>))"

subsection \<open>Paths and files\<close>

text \<open>
  \<^verbatim>\<open>filepath.Join\<close> as a string: the non-empty elements with the separator between them.
  (Go also cleans the result; the fixed elements of this program are clean.)
\<close>

fun join_with :: "char \<Rightarrow> string list \<Rightarrow> string" where
  "join_with sep [] = []"
| "join_with sep [x] = x"
| "join_with sep (x # y # ys) = x @ sep # join_with sep (y # ys)"

definition filepath_Join :: "env \<Rightarrow> path \<Rightarrow> string" where
  "filepath_Join e p = join_with (path_sep e) (filter (\<lambda>s. s \<noteq> []) p)"

text \<open>
  \<^verbatim>\<open>os.Mkdir\<close>: nothing may be at the path and the parent must be a directory.
\<close>

definition os_Mkdir :: "env \<Rightarrow> filesys \<Rightarrow> path \<Rightarrow> string option \<times> filesys" where
  "os_Mkdir e f p =
     (if p = [] then (Some ''no such file or directory'', f)
      else if f p \<noteq> None then (Some ''file exists'', f)
      else if butlast p \<noteq> [] \<and> f (butlast p) = None then (Some ''no such file or directory'', f)
      else if butlast p \<noteq> [] \<and> f (butlast p) \<noteq> Some Dir then (Some ''not a directory'', f)
      else case fault e (OpMkdir p) of
        Some err \<Rightarrow> (Some err, f)
      | None \<Rightarrow> (None, f(p \<mapsto> Dir)))"

text \<open>
  \<^verbatim>\<open>os.MkdirAll\<close>, as the Go library has it. It first calls \<^verbatim>\<open>Stat\<close>: when that succeeds,
  a directory is a success with nothing done and anything else is an error. When \<^verbatim>\<open>Stat\<close>
  fails, because nothing is there or because of an I/O error, the parent is made first
  (the working directory is never made), then \<^verbatim>\<open>Mkdir\<close> is called; if \<^verbatim>\<open>Mkdir\<close> fails, \<^verbatim>\<open>Lstat\<close>
  is asked whether the directory is there after all, and only then is the failure
  forgiven. What was made before an error stays.
\<close>

function os_MkdirAll :: "env \<Rightarrow> filesys \<Rightarrow> path \<Rightarrow> string option \<times> filesys" where
  "os_MkdirAll e f p =
     (if p \<noteq> [] \<and> fault e (OpStat p) = None \<and> f p \<noteq> None then
        (if f p = Some Dir then (None, f) else (Some ''not a directory'', f))
      else
        (case (if butlast p \<noteq> [] then os_MkdirAll e f (butlast p) else (None, f)) of
           (Some err, f') \<Rightarrow> (Some err, f')
         | (None, f') \<Rightarrow>
             (case os_Mkdir e f' p of
                (None, f'') \<Rightarrow> (None, f'')
              | (Some err, f'') \<Rightarrow>
                  if p \<noteq> [] \<and> fault e (OpLstat p) = None \<and> f'' p = Some Dir then (None, f'')
                  else (Some err, f''))))"
  by pat_completeness auto
termination
  by (relation "measure (\<lambda>(e, f, p). length p)") (auto simp: butlast_conv_take)

declare os_MkdirAll.simps [simp del]

text \<open>
  \<^verbatim>\<open>os.Create\<close>: the parent must be a directory and the path must not be one; the file is
  created or truncated.
\<close>

definition os_Create :: "env \<Rightarrow> filesys \<Rightarrow> path \<Rightarrow> string option \<times> filesys" where
  "os_Create e f p =
     (if p = [] \<or> f p = Some Dir then (Some ''is a directory'', f)
      else if butlast p \<noteq> [] \<and> f (butlast p) = None then (Some ''no such file or directory'', f)
      else if butlast p \<noteq> [] \<and> f (butlast p) \<noteq> Some Dir then (Some ''not a directory'', f)
      else case fault e (OpCreate p) of
        Some err \<Rightarrow> (Some err, f)
      | None \<Rightarrow> (None, f(p \<mapsto> File [])))"

text \<open>Writing \<open>s\<close> to the file just created at \<open>p\<close> (\<^verbatim>\<open>file.WriteString\<close>, \<^verbatim>\<open>tmpl.Execute\<close>).\<close>

definition file_Write :: "env \<Rightarrow> filesys \<Rightarrow> path \<Rightarrow> string \<Rightarrow> string option \<times> filesys" where
  "file_Write e f p s =
     (case write_fault e p of
        Some (err, n) \<Rightarrow> (Some err, f(p \<mapsto> File (take n s)))
      | None \<Rightarrow> (None, f(p \<mapsto> File s)))"

text \<open>\<^verbatim>\<open>os.WriteFile\<close>: create or truncate, then write.\<close>

definition os_WriteFile :: "env \<Rightarrow> filesys \<Rightarrow> path \<Rightarrow> string \<Rightarrow> string option \<times> filesys" where
  "os_WriteFile e f p s =
     (case os_Create e f p of
        (Some err, f') \<Rightarrow> (Some err, f')
      | (None, f') \<Rightarrow> file_Write e f' p s)"

text \<open>\<^verbatim>\<open>os.Stat\<close> followed by \<^verbatim>\<open>os.IsNotExist\<close>: true exactly when nothing is at the path.\<close>

definition stat_IsNotExist :: "env \<Rightarrow> filesys \<Rightarrow> path \<Rightarrow> bool" where
  "stat_IsNotExist e f p = (fault e (OpStat p) = None \<and> f p = None)"


section \<open>Library functions the program calls\<close>

subsection \<open>The version pattern\<close>

text \<open>
  \<^verbatim>\<open>regexp.MustCompile(`cmake version (\d+\.\d+\.\d+)`).FindStringSubmatch\<close>, reduced to
  its first group. \<^verbatim>\<open>\d\<close> is an ASCII digit. A run of digits must be followed by a dot,
  which is no digit, so each of the first two \<^verbatim>\<open>\d+\<close> can only take the whole run; the
  last one is greedy and takes the whole run as well. The search returns the leftmost match.
\<close>

definition is_digit :: "char \<Rightarrow> bool" where
  "is_digit c = (c \<in> set ''0123456789'')"

definition match_number :: "string \<Rightarrow> (string \<times> string) option" where
  "match_number s =
     (if takeWhile is_digit s = [] then None
      else Some (takeWhile is_digit s, dropWhile is_digit s))"

definition match_dot :: "string \<Rightarrow> string option" where
  "match_dot s = (case s of [] \<Rightarrow> None | c # r \<Rightarrow> if c = CHR ''.'' then Some r else None)"

definition match_version :: "string \<Rightarrow> string option" where
  "match_version s =
     (case match_number s of None \<Rightarrow> None | Some (a, r1) \<Rightarrow>
      case match_dot r1 of None \<Rightarrow> None | Some r2 \<Rightarrow>
      case match_number r2 of None \<Rightarrow> None | Some (b, r3) \<Rightarrow>
      case match_dot r3 of None \<Rightarrow> None | Some r4 \<Rightarrow>
      case match_number r4 of None \<Rightarrow> None | Some (c, r5) \<Rightarrow>
        Some (a @ ''.'' @ b @ ''.'' @ c))"

definition match_here :: "string \<Rightarrow> string option" where
  "match_here s =
     (if prefix ''cmake version '' s then match_version (drop (length ''cmake version '') s)
      else None)"

fun FindStringSubmatch :: "string \<Rightarrow> string option" where
  "FindStringSubmatch [] = None"
| "FindStringSubmatch (c # cs) =
     (case match_here (c # cs) of
        Some v \<Rightarrow> Some v
      | None \<Rightarrow> FindStringSubmatch cs)"

subsection \<open>Reading and normalising the answer\<close>

text \<open>\<^verbatim>\<open>reader.ReadString(delim)\<close>: up to and including the first delimiter, or all there is.\<close>

definition ReadString :: "char \<Rightarrow> string \<Rightarrow> string" where
  "ReadString delim s =
     (if delim \<in> set s then takeWhile (\<lambda>c. c \<noteq> delim) s @ [delim] else s)"

text \<open>
  \<^verbatim>\<open>strings.ToLower\<close> on bytes: the letters A to Z are lowered. Go lowers the letters
  outside ASCII too, to letters outside ASCII (but for U+212A and U+0130, which become
  k and i), so whether the result is \<^verbatim>\<open>y\<close> or \<^verbatim>\<open>yes\<close> is the same.
\<close>

definition lower_byte :: "char \<Rightarrow> char" where
  "lower_byte c =
     (case map_of (zip ''ABCDEFGHIJKLMNOPQRSTUVWXYZ'' ''abcdefghijklmnopqrstuvwxyz'') c of
        Some l \<Rightarrow> l
      | None \<Rightarrow> c)"

definition strings_ToLower :: "string \<Rightarrow> string" where
  "strings_ToLower s = map lower_byte s"

text \<open>
  The UTF-8 encodings of the code points for which \<^verbatim>\<open>unicode.IsSpace\<close> holds: tab, line
  feed, vertical tab, form feed, carriage return, space, U+0085, U+00A0, U+1680,
  U+2000 to U+200A, U+2028, U+2029, U+202F, U+205F and U+3000.
\<close>

definition space_runes :: "string list" where
  "space_runes =
     [[CHR 0x09], [CHR 0x0A], [CHR 0x0B], [CHR 0x0C], [CHR 0x0D], [CHR 0x20],
      [CHR 0xC2, CHR 0x85], [CHR 0xC2, CHR 0xA0],
      [CHR 0xE1, CHR 0x9A, CHR 0x80],
      [CHR 0xE2, CHR 0x80, CHR 0x80], [CHR 0xE2, CHR 0x80, CHR 0x81],
      [CHR 0xE2, CHR 0x80, CHR 0x82], [CHR 0xE2, CHR 0x80, CHR 0x83],
      [CHR 0xE2, CHR 0x80, CHR 0x84], [CHR 0xE2, CHR 0x80, CHR 0x85],
      [CHR 0xE2, CHR 0x80, CHR 0x86], [CHR 0xE2, CHR 0x80, CHR 0x87],
      [CHR 0xE2, CHR 0x80, CHR 0x88], [CHR 0xE2, CHR 0x80, CHR 0x89],
      [CHR 0xE2, CHR 0x80, CHR 0x8A],
      [CHR 0xE2, CHR 0x80, CHR 0xA8], [CHR 0xE2, CHR 0x80, CHR 0xA9],
      [CHR 0xE2, CHR 0x80, CHR 0xAF],
      [CHR 0xE2, CHR 0x81, CHR 0x9F],
      [CHR 0xE3, CHR 0x80, CHR 0x80]]"

text \<open>The white space a string starts with, if it starts with any.\<close>

definition leading_space :: "string \<Rightarrow> string option" where
  "leading_space s = find (\<lambda>w. prefix w s) space_runes"

definition trailing_space :: "string \<Rightarrow> string option" where
  "trailing_space s = find (\<lambda>w. suffix w s) space_runes"

lemma space_runes_nonempty: "w \<in> set space_runes \<Longrightarrow> 0 < length w"
  by (auto simp: space_runes_def)

lemma leading_space_shorter:
  "leading_space s = Some w \<Longrightarrow> length (drop (length w) s) < length s"
  by (auto simp: leading_space_def find_Some_iff prefix_def dest!: nth_mem space_runes_nonempty)

lemma trailing_space_shorter:
  "trailing_space s = Some w \<Longrightarrow> length (take (length s - length w) s) < length s"
  by (auto simp: trailing_space_def find_Some_iff suffix_def dest!: nth_mem space_runes_nonempty)

function TrimLeft :: "string \<Rightarrow> string" where
  "TrimLeft s =
     (case leading_space s of
        None \<Rightarrow> s
      | Some w \<Rightarrow> TrimLeft (drop (length w) s))"
  by pat_completeness auto
termination
  by (relation "measure length") (auto dest: leading_space_shorter)

function TrimRight :: "string \<Rightarrow> string" where
  "TrimRight s =
     (case trailing_space s of
        None \<Rightarrow> s
      | Some w \<Rightarrow> TrimRight (take (length s - length w) s))"
  by pat_completeness auto
termination
  by (relation "measure length") (auto dest: trailing_space_shorter)

declare TrimLeft.simps [simp del] TrimRight.simps [simp del]

text \<open>\<^verbatim>\<open>strings.TrimSpace\<close>: leading and trailing white space removed.\<close>

definition strings_TrimSpace :: "string \<Rightarrow> string" where
  "strings_TrimSpace s = TrimRight (TrimLeft s)"


section \<open>The program\<close>

text \<open>
  \<^verbatim>\<open>getCMakeVersion\<close>: runs \<^verbatim>\<open>cmake --version\<close> and returns the first group of the match,
  or an error when the command fails or its output does not match.
\<close>

definition getCMakeVersion :: "env \<Rightarrow> world \<Rightarrow> (string + string) \<times> world" where
  "getCMakeVersion e w =
     (case cmake_run e of
        Inl err \<Rightarrow>
          (Inl err, w\<lparr>procs := procs w @ [(Command ''cmake'' [''--version''] [], Some err)]\<rparr>)
      | Inr out \<Rightarrow>
          (case FindStringSubmatch out of
             None \<Rightarrow> Inl ''unable to parse CMake version''
           | Some v \<Rightarrow> Inr v,
           w\<lparr>procs := procs w @ [(Command ''cmake'' [''--version''] [], None)]\<rparr>))"

text \<open>
  \<^verbatim>\<open>createCMakeLists\<close>. The template constant parses, so the first error branch of the
  source is never taken; executing it on a struct of strings fails only when the write does.
\<close>

definition createCMakeLists :: "env \<Rightarrow> ProjectData \<Rightarrow> world \<Rightarrow> outcome" where
  "createCMakeLists e d w =
     (case os_Create e (fs w) [ProjectName d, ''CMakeLists.txt''] of
        (Some err, f') \<Rightarrow>
          Exit 1 (print (''Error creating CMakeLists.txt file: '' @ err @ ''\<newline>'') (w\<lparr>fs := f'\<rparr>))
      | (None, f') \<Rightarrow>
          (case file_Write e f' [ProjectName d, ''CMakeLists.txt''] (cmakeTemplate d) of
             (Some err, f'') \<Rightarrow>
               Exit 1 (print (''Error writing to CMakeLists.txt: '' @ err @ ''\<newline>'') (w\<lparr>fs := f''\<rparr>))
           | (None, f'') \<Rightarrow> Return (w\<lparr>fs := f''\<rparr>)))"

text \<open>\<^verbatim>\<open>createFile\<close>: the path is printed as \<^verbatim>\<open>filepath.Join\<close> built it.\<close>

definition createFile :: "env \<Rightarrow> path \<Rightarrow> string \<Rightarrow> world \<Rightarrow> outcome" where
  "createFile e p content w =
     (case os_Create e (fs w) p of
        (Some err, f') \<Rightarrow>
          Exit 1 (print (''Error creating file '' @ filepath_Join e p @ '': '' @ err @ ''\<newline>'')
                    (w\<lparr>fs := f'\<rparr>))
      | (None, f') \<Rightarrow>
          (case file_Write e f' p content of
             (Some err, f'') \<Rightarrow>
               Exit 1 (print (''Error writing to file '' @ filepath_Join e p @ '': '' @ err @ ''\<newline>'')
                         (w\<lparr>fs := f''\<rparr>))
           | (None, f'') \<Rightarrow> Return (w\<lparr>fs := f''\<rparr>)))"

text \<open>
  The two JSON documents, as \<^verbatim>\<open>json.MarshalIndent(v, "", "  ")\<close> writes them: the keys of
  a map in sorted order, an empty slice as \<^verbatim>\<open>[]\<close>. Marshalling maps of strings and
  integers does not fail, so the error branches after it are never taken. The two strings
  that depend on the input go through \<open>json_string\<close>.
\<close>

definition manifestJSON :: string where
  "manifestJSON =
     ''{\<newline>'' @
     ''  '' @ [CHR 0x22] @ ''dependencies'' @ [CHR 0x22] @ '': []\<newline>'' @
     ''}''"

definition presetsJSON :: "env \<Rightarrow> ProjectData \<Rightarrow> string" where
  "presetsJSON e d =
     (let toolchainPath =
            (if PackageMgr d = ''vcpkg''
             then filepath_Join e [''vcpkg'', ''scripts'', ''buildsystems'', ''vcpkg.cmake'']
             else [])
      in
       ''{\<newline>'' @
       ''  '' @ [CHR 0x22] @ ''configurePresets'' @ [CHR 0x22] @ '': [\<newline>'' @
       ''    {\<newline>'' @
       ''      '' @ [CHR 0x22] @ ''binaryDir'' @ [CHR 0x22] @ '': '' @
                    [CHR 0x22] @ ''${sourceDir}/build/${presetName}'' @ [CHR 0x22] @ '',\<newline>'' @
       ''      '' @ [CHR 0x22] @ ''cacheVariables'' @ [CHR 0x22] @ '': {\<newline>'' @
       ''        '' @ [CHR 0x22] @ ''CMAKE_BUILD_TYPE'' @ [CHR 0x22] @ '': '' @
                      [CHR 0x22] @ ''Debug'' @ [CHR 0x22] @ '',\<newline>'' @
       ''        '' @ [CHR 0x22] @ ''CMAKE_TOOLCHAIN_FILE'' @ [CHR 0x22] @ '': '' @
                      json_string e toolchainPath @ ''\<newline>'' @
       ''      },\<newline>'' @
       ''      '' @ [CHR 0x22] @ ''generator'' @ [CHR 0x22] @ '': '' @
                    [CHR 0x22] @ ''Visual Studio 17 2022'' @ [CHR 0x22] @ '',\<newline>'' @
       ''      '' @ [CHR 0x22] @ ''name'' @ [CHR 0x22] @ '': '' @
                    json_string e (ProjectName d @ ''-Debug'') @ ''\<newline>'' @
       ''    }\<newline>'' @
       ''  ],\<newline>'' @
       ''  '' @ [CHR 0x22] @ ''version'' @ [CHR 0x22] @ '': 3\<newline>'' @
       ''}'')"

definition createCMakePresets :: "env \<Rightarrow> ProjectData \<Rightarrow> world \<Rightarrow> outcome" where
  "createCMakePresets e d w =
     (case os_WriteFile e (fs w) [ProjectName d, ''CMakePresets.json''] (presetsJSON e d) of
        (Some err, f') \<Rightarrow>
          Exit 1 (print (''Error writing CMakePresets.json: '' @ err @ ''\<newline>'') (w\<lparr>fs := f'\<rparr>))
      | (None, f') \<Rightarrow> Return (w\<lparr>fs := f'\<rparr>))"

text \<open>The loop over \<^verbatim>\<open>dirs\<close> at the start of \<^verbatim>\<open>createProjectStructure\<close>.\<close>

fun createDirs :: "env \<Rightarrow> ProjectData \<Rightarrow> string list \<Rightarrow> world \<Rightarrow> outcome" where
  "createDirs e d [] w = Return w"
| "createDirs e d (dir # dirs) w =
     (case os_MkdirAll e (fs w) [ProjectName d, dir] of
        (Some err, f') \<Rightarrow>
          Exit 1 (print (''Error creating directory '' @ dir @ '': '' @ err @ ''\<newline>'') (w\<lparr>fs := f'\<rparr>))
      | (None, f') \<Rightarrow> createDirs e d dirs (w\<lparr>fs := f'\<rparr>))"

text \<open>
  The three external commands run when the project has no \<^verbatim>\<open>vcpkg\<close> entry yet
  (the body of the \<^verbatim>\<open>os.IsNotExist\<close> branch of \<^verbatim>\<open>createProjectStructure\<close>). All three
  failures print the same message, as in the source.
\<close>

definition cloneVcpkg :: "env \<Rightarrow> ProjectData \<Rightarrow> world \<Rightarrow> outcome" where
  "cloneVcpkg e d w =
     (let vcpkgPath = filepath_Join e [ProjectName d, ''vcpkg''];
          w1 = print ''Cloning vcpkg...\<newline>'' w
      in case cmd_Run e (Command ''git''
                [''clone'', ''https://github.com/Microsoft/vcpkg.git'', vcpkgPath] []) w1 of
        (Some err, w2) \<Rightarrow> Exit 1 (print (''Error cloning vcpkg: '' @ err @ ''\<newline>'') w2)
      | (None, w2) \<Rightarrow>
          (let w3 = print ''Bootstrapping vcpkg...\<newline>'' w2
           in case cmd_Run e (Command (vcpkgPath @ [CHR 0x5C] @ ''bootstrap-vcpkg.bat'') [] []) w3 of
             (Some err, w4) \<Rightarrow> Exit 1 (print (''Error cloning vcpkg: '' @ err @ ''\<newline>'') w4)
           | (None, w4) \<Rightarrow>
               (let w5 = print ''Creting vcpkg manifes...\<newline>'' w4
                in case cmd_Run e (Command (vcpkgPath @ [CHR 0x5C] @ ''vcpkg'')
                          [''new'', ''--application''] []) w5 of
                  (Some err, w6) \<Rightarrow> Exit 1 (print (''Error cloning vcpkg: '' @ err @ ''\<newline>'') w6)
                | (None, w6) \<Rightarrow> Return w6)))"

text \<open>The \<^verbatim>\<open>if data.PackageMgr == "vcpkg"\<close> block of \<^verbatim>\<open>createProjectStructure\<close>.\<close>

definition setupVcpkg :: "env \<Rightarrow> ProjectData \<Rightarrow> world \<Rightarrow> outcome" where
  "setupVcpkg e d w =
     andThen
       (if stat_IsNotExist e (fs w) [ProjectName d, ''vcpkg''] then cloneVcpkg e d w else Return w)
       (\<lambda>w1. case os_WriteFile e (fs w1) [ProjectName d, ''vcpkg.json''] manifestJSON of
          (Some err, f') \<Rightarrow>
            Exit 1 (print (''Error writing vcpkg manifest: '' @ err @ ''\<newline>'') (w1\<lparr>fs := f'\<rparr>))
        | (None, f') \<Rightarrow> createCMakePresets e d (w1\<lparr>fs := f'\<rparr>))"

text \<open>The starter files: the last block of \<^verbatim>\<open>createProjectStructure\<close>.\<close>

definition createMainFile :: "env \<Rightarrow> ProjectData \<Rightarrow> world \<Rightarrow> outcome" where
  "createMainFile e d w =
     (if Lang d = ''cpp'' then
        andThen (createFile e [ProjectName d, ''src'', ''main.cpp''] cppMainTemplate w)
          (\<lambda>w1. createFile e [ProjectName d, ''include'', ''pch.hpp''] pchTemplate w1)
      else if Lang d = ''c'' then
        createFile e [ProjectName d, ''src'', ''main.c''] cppMainTemplate w
      else Return w)"

definition createProjectStructure :: "env \<Rightarrow> ProjectData \<Rightarrow> world \<Rightarrow> outcome" where
  "createProjectStructure e d w =
     andThen (createDirs e d [''src'', ''include'', ''build''] w) (\<lambda>w1.
     andThen (createCMakeLists e d w1) (\<lambda>w2.
     andThen (if PackageMgr d = ''vcpkg'' then setupVcpkg e d w2 else Return w2) (\<lambda>w3.
     andThen (createMainFile e d w3) (\<lambda>w4.
     Return (print (''Project '' @ ProjectName d @ '' created successfully.\<newline>'') w4)))))"

text \<open>
  \<^verbatim>\<open>initializeVersionControl\<close>. Both failures of \<^verbatim>\<open>git\<close> print a message and return to
  \<^verbatim>\<open>main\<close>; only \<^verbatim>\<open>createFile\<close> can end the process here.
\<close>

definition initializeVersionControl :: "env \<Rightarrow> string \<Rightarrow> world \<Rightarrow> outcome" where
  "initializeVersionControl e projectPath w =
     (let w1 = print ''Do you want to initialize Git version control? (y/n): '' w;
          input = strings_TrimSpace (strings_ToLower (ReadString (CHR 0x0A) (stdin e)))
      in if input = ''y'' \<or> input = ''yes'' then
           (case cmd_Run e (Command ''git'' [''init''] projectPath) w1 of
              (Some err, w2) \<Rightarrow>
                Return (print (''Error initializing Git repository: '' @ err @ ''\<newline>'') w2)
            | (None, w2) \<Rightarrow>
                andThen (createFile e [projectPath, ''.gitignore''] gitignoreTemplate w2) (\<lambda>w3.
                andThen (createFile e [projectPath, ''.gitattributes''] gitattributesTemplate w3) (\<lambda>w4.
                case cmd_Run e (Command ''git'' [''add'', ''.gitignore'', ''.gitattributes'']
                       projectPath) w4 of
                  (Some err, w5) \<Rightarrow>
                    Return (print (''Error adding .gitignore/.gitattributes to Git: '' @ err @ ''\<newline>'') w5)
                | (None, w5) \<Rightarrow>
                    Return (print (''Git repository initialized successfully with .gitignore and .gitattributes.\<newline>'') w5))))
         else Return (print ''Skipped Git initialization.\<newline>'' w1))"

text \<open>
  The descriptor \<^verbatim>\<open>main\<close> builds once the flags are validated and the version is known:
  \<^verbatim>\<open>cmakeLang\<close> and \<^verbatim>\<open>fileExt\<close> start as empty strings and are set from the language.
\<close>

definition projectData :: "flags \<Rightarrow> string \<Rightarrow> ProjectData" where
  "projectData fl cmakeVersion =
     (let (cmakeLang, fileExt) =
            (if lang fl = ''cpp'' then (''CXX'', ''cpp'')
             else if lang fl = ''c'' then (''C'', ''c'')
             else ([], []))
      in \<lparr>ProjectName = projectName fl, Type = projectType fl, Lang = lang fl,
          Standard = standard fl, CMakeVersion = cmakeVersion, CMakeLang = cmakeLang,
          FileExt = fileExt, PackageMgr = pkgmgr fl\<rparr>)"

text \<open>
  \<^verbatim>\<open>main\<close>, from the parsed flags and the files present when it starts, to the exit
  status of the process and the world it leaves. Returning from \<^verbatim>\<open>main\<close> is exit status 0.
\<close>

definition main :: "env \<Rightarrow> flags \<Rightarrow> filesys \<Rightarrow> nat \<times> world" where
  "main e fl f0 =
     (let w0 = \<lparr>fs = f0, stdout = [], procs = []\<rparr>
      in if projectName fl = [] then
           (1, print ''Error: Project name is required. Use -name to specify the project name.\<newline>'' w0)
         else if lang fl \<noteq> ''cpp'' \<and> lang fl \<noteq> ''c'' then
           (1, print ''Error: Unsupported language. Supported options: cpp, c\<newline>'' w0)
         else if pkgmgr fl \<noteq> ''vcpkg'' then
           (1, print ''Error: Unsupported package manager. Only vcpkg is currently supported.\<newline>'' w0)
         else case getCMakeVersion e w0 of
           (Inl err, w1) \<Rightarrow>
             (1, print (''Error retrieving CMake version: '' @ err @ ''\<newline>'') w1)
         | (Inr cmakeVersion, w1) \<Rightarrow>
             (case createProjectStructure e (projectData fl cmakeVersion) w1 of
                Exit c w2 \<Rightarrow> (c, w2)
              | Return w2 \<Rightarrow>
                  (case initializeVersionControl e (projectName fl) w2 of
                     Exit c w3 \<Rightarrow> (c, w3)
                   | Return w3 \<Rightarrow> (0, w3))))"


section \<open>A sample machine\<close>

text \<open>
  A machine on which everything works: \<^verbatim>\<open>cmake\<close> 3.28.1 is installed, every external
  command succeeds and leaves the files alone, there are no I/O errors, and the user
  answers \<^verbatim>\<open>n\<close>. The concrete runs below start from it.
\<close>

definition demo_env :: env where
  "demo_env =
     \<lparr>cmake_run = Inr ''cmake version 3.28.1\<newline>\<newline>CMake suite maintained and supported by Kitware (kitware.com/cmake).\<newline>'',
      proc = (\<lambda>c f. (None, f)),
      fault = (\<lambda>op. None),
      write_fault = (\<lambda>p. None),
      stdin = ''n\<newline>'',
      path_sep = CHR ''/'',
      json_string = (\<lambda>s. [CHR 0x22] @ s @ [CHR 0x22])\<rparr>"

definition demo_flags :: flags where
  "demo_flags = default_flags\<lparr>projectName := ''demo''\<rparr>"

text \<open>The flags of the example run: \<^verbatim>\<open>-name demo -type executable -lang cpp -std 17\<close>.\<close>

definition demo17_flags :: flags where
  "demo17_flags =
     \<lparr>projectName = ''demo'', projectType = ''executable'', lang = ''cpp'',
      standard = ''17'', pkgmgr = ''vcpkg''\<rparr>"

definition start_world :: world where
  "start_world = \<lparr>fs = Map.empty, stdout = [], procs = []\<rparr>"

text \<open>The same machine with a user who answers \<^verbatim>\<open>y\<close> and one command that fails.\<close>

definition failing_env :: "command \<Rightarrow> env" where
  "failing_env bad =
     demo_env\<lparr>stdin := ''y\<newline>'',
              proc := (\<lambda>c f. (if c = bad then Some ''exit status 128'' else None, f))\<rparr>"

text \<open>
  A machine that can look at files but not make any: \<^verbatim>\<open>Stat\<close> and \<^verbatim>\<open>Lstat\<close> work, every
  other file operation is refused.
\<close>

definition read_only_env :: env where
  "read_only_env =
     demo_env\<lparr>fault := (\<lambda>op. case op of
                                  OpStat q \<Rightarrow> None
                                | OpLstat q \<Rightarrow> None
                                | OpMkdir q \<Rightarrow> Some ''permission denied''
                                | OpCreate q \<Rightarrow> Some ''permission denied'')\<rparr>"

text \<open>
  The sample machine with a \<^verbatim>\<open>git clone\<close> that does its work: it leaves a \<^verbatim>\<open>vcpkg\<close>
  directory with the bootstrap script in the project directory.
\<close>

definition clone_env :: env where
  "clone_env =
     demo_env\<lparr>proc := (\<lambda>c f.
        (None,
         if c = Command ''git'' [''clone'', ''https://github.com/Microsoft/vcpkg.git'', ''demo/vcpkg''] []
         then f([''demo'', ''vcpkg''] \<mapsto> Dir,
                [''demo'', ''vcpkg'', ''bootstrap-vcpkg.bat''] \<mapsto> File [])
         else f))\<rparr>"


section \<open>Vocabulary of the properties\<close>

text \<open>The world an outcome carries, whichever way the procedure ended.\<close>

definition world_of :: "outcome \<Rightarrow> world" where
  "world_of r = (case r of Exit c w \<Rightarrow> w | Return w \<Rightarrow> w)"

text \<open>The two commands of \<^verbatim>\<open>initializeVersionControl\<close>, run in the project directory.\<close>

definition git_init :: "string \<Rightarrow> command" where
  "git_init p = Command ''git'' [''init''] p"

definition git_add :: "string \<Rightarrow> command" where
  "git_add p = Command ''git'' [''add'', ''.gitignore'', ''.gitattributes''] p"

text \<open>The three commands of the package-manager bootstrap, in the order they are run.\<close>

definition vcpkg_commands :: "env \<Rightarrow> ProjectData \<Rightarrow> command list" where
  "vcpkg_commands e d =
     [Command ''git'' [''clone'', ''https://github.com/Microsoft/vcpkg.git'',
                       filepath_Join e [ProjectName d, ''vcpkg'']] [],
      Command (filepath_Join e [ProjectName d, ''vcpkg''] @ [CHR 0x5C] @ ''bootstrap-vcpkg.bat'') [] [],
      Command (filepath_Join e [ProjectName d, ''vcpkg''] @ [CHR 0x5C] @ ''vcpkg'')
        [''new'', ''--application''] []]"

text \<open>The external commands that ended with an error, each with its error.\<close>

definition failures :: "world \<Rightarrow> (command \<times> string) list" where
  "failures w = concat (map (\<lambda>(c, r). case r of None \<Rightarrow> [] | Some err \<Rightarrow> [(c, err)]) (procs w))"

text \<open>The last thing printed is an error message that ends with the given error.\<close>

definition reported :: "string \<Rightarrow> world \<Rightarrow> bool" where
  "reported err w = (stdout w \<noteq> [] \<and> prefix ''Error '' (last (stdout w)) \<and> suffix (err @ ''\<newline>'') (last (stdout w)))"

text \<open>
  A procedure that runs no external command and, when it ends the process, does so with
  exit status 1.
\<close>

definition quiet :: "world \<Rightarrow> outcome \<Rightarrow> bool" where
  "quiet w r = (procs (world_of r) = procs w \<and> (\<forall>c w'. r = Exit c w' \<longrightarrow> c = 1))"

text \<open>
  A procedure in which a failing external command is fatal: it returns only if no command
  failed; if it ends the process, the status is 1 and at most one command failed, which is
  neither of the two \<^verbatim>\<open>git\<close> commands of the last step and whose error was reported last.
\<close>

definition fatal_only :: "string \<Rightarrow> world \<Rightarrow> outcome \<Rightarrow> bool" where
  "fatal_only p w r =
     (case r of
        Return w' \<Rightarrow> failures w' = failures w
      | Exit c w' \<Rightarrow>
          c = 1 \<and>
          (failures w' = failures w \<or>
           (\<exists>cmd err. failures w' = failures w @ [(cmd, err)] \<and> cmd \<noteq> git_init p \<and> cmd \<noteq> git_add p
              \<and> reported err w')))"

text \<open>
  A procedure in which a failing external command is not fatal: if it ends the process, no
  command failed; if it returns, at most one command failed, which is one of the two
  \<^verbatim>\<open>git\<close> commands of the last step and whose error was reported last.
\<close>

definition soft_only :: "string \<Rightarrow> world \<Rightarrow> outcome \<Rightarrow> bool" where
  "soft_only p w r =
     (case r of
        Return w' \<Rightarrow>
          failures w' = failures w \<or>
          (\<exists>c err. failures w' = failures w @ [(c, err)] \<and> (c = git_init p \<or> c = git_add p)
             \<and> reported err w')
      | Exit c w' \<Rightarrow> c = 1 \<and> failures w' = failures w)"

text \<open>
  The project a generation pass leaves in an empty working directory: three directories
  under the project directory, the build manifest, the two package-manager files and the
  starter files of the language.
\<close>

definition project_tree :: "env \<Rightarrow> ProjectData \<Rightarrow> filesys" where
  "project_tree e d =
     (let n = ProjectName d;
          t = [[n] \<mapsto> Dir, [n, ''src''] \<mapsto> Dir, [n, ''include''] \<mapsto> Dir, [n, ''build''] \<mapsto> Dir,
               [n, ''CMakeLists.txt''] \<mapsto> File (cmakeTemplate d),
               [n, ''vcpkg.json''] \<mapsto> File manifestJSON,
               [n, ''CMakePresets.json''] \<mapsto> File (presetsJSON e d)]
      in if Lang d = ''cpp'' then
           t([n, ''src'', ''main.cpp''] \<mapsto> File cppMainTemplate,
             [n, ''include'', ''pch.hpp''] \<mapsto> File pchTemplate)
         else t([n, ''src'', ''main.c''] \<mapsto> File cppMainTemplate))"

text \<open>
  A machine without I/O errors on which the three bootstrap commands succeed and leave
  the files as they are.
\<close>

definition tools_work :: "env \<Rightarrow> ProjectData \<Rightarrow> bool" where
  "tools_work e d =
     (fault e = (\<lambda>op. None) \<and> write_fault e = (\<lambda>p. None) \<and>
      (\<forall>f. list_all (\<lambda>c. proc e c f = (None, f)) (vcpkg_commands e d)))"

text \<open>
  The world after the version probe and a generation pass into an empty working
  directory, on a machine where the tools work.
\<close>

definition generated :: "env \<Rightarrow> ProjectData \<Rightarrow> world" where
  "generated e d =
     \<lparr>fs = project_tree e d,
      stdout = [''Cloning vcpkg...\<newline>'', ''Bootstrapping vcpkg...\<newline>'',
                ''Creting vcpkg manifes...\<newline>'',
                ''Project '' @ ProjectName d @ '' created successfully.\<newline>''],
      procs = (Command ''cmake'' [''--version''] [], None) # map (\<lambda>c. (c, None)) (vcpkg_commands e d)\<rparr>"

text \<open>The external commands run so far are still there, in order, after the procedure.\<close>

definition grows :: "world \<Rightarrow> outcome \<Rightarrow> bool" where
  "grows w r = prefix (procs w) (procs (world_of r))"

text \<open>The directories and files a generation pass makes, for either language.\<close>

definition project_paths :: "ProjectData \<Rightarrow> path list" where
  "project_paths d =
     (let n = ProjectName d
      in [[n], [n, ''src''], [n, ''include''], [n, ''build''], [n, ''CMakeLists.txt''],
          [n, ''vcpkg.json''], [n, ''CMakePresets.json''],
          [n, ''src'', ''main.cpp''], [n, ''include'', ''pch.hpp''], [n, ''src'', ''main.c'']])"

text \<open>
  Whatever an external command creates or changes, it leaves the directories and files
  of the generator as they are.
\<close>

definition tools_keep :: "env \<Rightarrow> ProjectData \<Rightarrow> bool" where
  "tools_keep e d = (\<forall>c f. \<forall>q \<in> set (project_paths d). snd (proc e c f) q = f q)"

text \<open>
  A machine where the tools work: no I/O errors, the external commands keep off the
  generator's files, and the three bootstrap commands succeed.
\<close>

definition tools_succeed :: "env \<Rightarrow> ProjectData \<Rightarrow> bool" where
  "tools_succeed e d =
     (fault e = (\<lambda>op. None) \<and> write_fault e = (\<lambda>p. None) \<and> tools_keep e d \<and>
      (\<forall>f. list_all (\<lambda>c. fst (proc e c f) = None) (vcpkg_commands e d)))"

text \<open>A file system in which the project has not been generated yet.\<close>

definition fresh :: "ProjectData \<Rightarrow> filesys \<Rightarrow> bool" where
  "fresh d f = (\<forall>q \<in> set (project_paths d). f q = None)"

text \<open>The procedure leaves what is at the given paths as it is.\<close>

definition untouched :: "path set \<Rightarrow> world \<Rightarrow> outcome \<Rightarrow> bool" where
  "untouched P w r = (\<forall>q \<in> P. fs (world_of r) q = fs w q)"

section \<open>Evaluating the string functions\<close>

lemma TrimLeft_None: "leading_space s = None \<Longrightarrow> TrimLeft s = s"
  by (subst TrimLeft.simps) simp

lemma TrimLeft_Some: "leading_space s = Some w \<Longrightarrow> TrimLeft s = TrimLeft (drop (length w) s)"
  by (subst TrimLeft.simps) simp

lemma TrimRight_None: "trailing_space s = None \<Longrightarrow> TrimRight s = s"
  by (subst TrimRight.simps) simp

lemma TrimRight_Some:
  "trailing_space s = Some w \<Longrightarrow> TrimRight s = TrimRight (take (length s - length w) s)"
  by (subst TrimRight.simps) simp

lemmas trim_eval =
  strings_TrimSpace_def strings_ToLower_def lower_byte_def ReadString_def
  TrimLeft_None TrimLeft_Some TrimRight_None TrimRight_Some
  leading_space_def trailing_space_def space_runes_def suffix_def

lemma answer_y: "strings_TrimSpace (strings_ToLower (ReadString (CHR 0x0A) ''y\<newline>'')) = ''y''"
  by (simp add: trim_eval)

lemma answer_n: "strings_TrimSpace (strings_ToLower (ReadString (CHR 0x0A) ''n\<newline>'')) = ''n''"
  by (simp add: trim_eval)

lemma demo_version:
  "FindStringSubmatch ''cmake version 3.28.1\<newline>\<newline>CMake suite maintained and supported by Kitware (kitware.com/cmake).\<newline>'' = Some ''3.28.1''"
  by (simp add: match_here_def match_version_def match_number_def match_dot_def is_digit_def)

text \<open>
  Lowering changes no byte of a white-space code point and makes none, so lowering and
  trimming can be done in either order.
\<close>

lemma lower_byte_cases:
  "lower_byte x = x \<or>
   (x \<in> set ''ABCDEFGHIJKLMNOPQRSTUVWXYZ'' \<and> lower_byte x \<in> set ''abcdefghijklmnopqrstuvwxyz'')"
proof (cases "map_of (zip ''ABCDEFGHIJKLMNOPQRSTUVWXYZ'' ''abcdefghijklmnopqrstuvwxyz'') x")
  case None
  then show ?thesis by (simp add: lower_byte_def)
next
  case (Some l)
  then have "(x, l) \<in> set (zip ''ABCDEFGHIJKLMNOPQRSTUVWXYZ'' ''abcdefghijklmnopqrstuvwxyz'')"
    by (rule map_of_SomeD)
  then have "x \<in> set ''ABCDEFGHIJKLMNOPQRSTUVWXYZ''" and "l \<in> set ''abcdefghijklmnopqrstuvwxyz''"
    by (blast dest: set_zip_leftD set_zip_rightD)+
  with Some show ?thesis by (simp add: lower_byte_def)
qed

lemma lower_byte_other:
  assumes "c \<notin> set ''ABCDEFGHIJKLMNOPQRSTUVWXYZ''" and "c \<notin> set ''abcdefghijklmnopqrstuvwxyz''"
  shows "lower_byte x = c \<longleftrightarrow> x = c"
proof
  assume "lower_byte x = c"
  with lower_byte_cases [of x] assms(2) show "x = c" by auto
next
  assume "x = c"
  with lower_byte_cases [of c] assms(1) show "lower_byte x = c" by auto
qed

lemma space_runes_no_letters:
  "\<forall>w \<in> set space_runes. \<forall>c \<in> set w.
     c \<notin> set ''ABCDEFGHIJKLMNOPQRSTUVWXYZ'' \<and> c \<notin> set ''abcdefghijklmnopqrstuvwxyz''"
  by (simp add: space_runes_def)

lemma space_bytes_no_letters:
  assumes "w \<in> set space_runes" and "c \<in> set w"
  shows "c \<notin> set ''ABCDEFGHIJKLMNOPQRSTUVWXYZ'' \<and> c \<notin> set ''abcdefghijklmnopqrstuvwxyz''"
  using assms space_runes_no_letters by blast

lemma prefix_map_fixed:
  assumes "\<And>c x. c \<in> set w \<Longrightarrow> f x = c \<longleftrightarrow> x = c"
  shows "prefix w (map f s) \<longleftrightarrow> prefix w s"
  using assms
proof (induction w arbitrary: s)
  case Nil
  then show ?case by simp
next
  case (Cons a w)
  show ?case
  proof (cases s)
    case Nil
    then show ?thesis by simp
  next
    case (Cons x s')
    have "f x = a \<longleftrightarrow> x = a"
      using Cons.prems [of a x] by simp
    moreover have "prefix w (map f s') \<longleftrightarrow> prefix w s'"
      using Cons.IH [of s'] Cons.prems by simp
    ultimately show ?thesis
      using Cons by auto
  qed
qed

lemma space_prefix_lower:
  assumes "w \<in> set space_runes"
  shows "prefix w (map lower_byte s) \<longleftrightarrow> prefix w s"
  by (rule prefix_map_fixed) (use assms space_bytes_no_letters lower_byte_other in blast)

lemma space_suffix_lower:
  assumes "w \<in> set space_runes"
  shows "suffix w (map lower_byte s) \<longleftrightarrow> suffix w s"
proof -
  have "prefix (rev w) (map lower_byte (rev s)) \<longleftrightarrow> prefix (rev w) (rev s)"
    by (rule prefix_map_fixed) (use assms space_bytes_no_letters lower_byte_other in auto)
  then show ?thesis
    by (simp add: suffix_to_prefix rev_map)
qed

lemma leading_space_lower: "leading_space (map lower_byte s) = leading_space s"
  unfolding leading_space_def by (rule find_cong) (simp_all add: space_prefix_lower)

lemma trailing_space_lower: "trailing_space (map lower_byte s) = trailing_space s"
  unfolding trailing_space_def by (rule find_cong) (simp_all add: space_suffix_lower)

lemma TrimLeft_lower: "TrimLeft (map lower_byte s) = map lower_byte (TrimLeft s)"
proof (induction s rule: TrimLeft.induct)
  case (1 s)
  show ?case
  proof (cases "leading_space s")
    case None
    then show ?thesis
      by (simp add: TrimLeft_None leading_space_lower)
  next
    case (Some w)
    then have "TrimLeft (map lower_byte s) = TrimLeft (map lower_byte (drop (length w) s))"
      by (simp add: TrimLeft_Some [of "map lower_byte s" w] leading_space_lower drop_map)
    also have "\<dots> = map lower_byte (TrimLeft (drop (length w) s))"
      using "1.IH" [OF Some] .
    also have "\<dots> = map lower_byte (TrimLeft s)"
      using Some by (simp add: TrimLeft_Some)
    finally show ?thesis .
  qed
qed

lemma TrimRight_lower: "TrimRight (map lower_byte s) = map lower_byte (TrimRight s)"
proof (induction s rule: TrimRight.induct)
  case (1 s)
  show ?case
  proof (cases "trailing_space s")
    case None
    then show ?thesis
      by (simp add: TrimRight_None trailing_space_lower)
  next
    case (Some w)
    then have "TrimRight (map lower_byte s) = TrimRight (map lower_byte (take (length s - length w) s))"
      by (simp add: TrimRight_Some [of "map lower_byte s" w] trailing_space_lower take_map)
    also have "\<dots> = map lower_byte (TrimRight (take (length s - length w) s))"
      using "1.IH" [OF Some] .
    also have "\<dots> = map lower_byte (TrimRight s)"
      using Some by (simp add: TrimRight_Some)
    finally show ?thesis .
  qed
qed

lemma trim_lower_commute:
  "strings_TrimSpace (strings_ToLower s) = strings_ToLower (strings_TrimSpace s)"
  by (simp add: strings_TrimSpace_def strings_ToLower_def TrimLeft_lower TrimRight_lower)

section \<open>How the procedures treat the world\<close>

text \<open>
  Each procedure is characterised once, for any world it starts in: which commands it
  may run, with which exit status it may end the process, and what it leaves when it
  returns. The properties of \<^verbatim>\<open>main\<close> follow by composing these along \<open>andThen\<close>.
\<close>

lemma fatal_only_andThen:
  assumes "fatal_only p w r" and "\<And>w1. r = Return w1 \<Longrightarrow> fatal_only p w1 (k w1)"
  shows "fatal_only p w (andThen r k)"
  using assms by (cases r) (auto simp: fatal_only_def andThen_def split: outcome.splits)

lemma quiet_Return: "quiet w (Return w)"
  by (simp add: quiet_def world_of_def)

lemma quiet_andThen:
  assumes "quiet w r" and "\<And>w1. quiet w1 (k w1)"
  shows "quiet w (andThen r k)"
proof (cases r)
  case (Exit c w')
  with assms(1) show ?thesis by (simp add: andThen_def quiet_def world_of_def)
next
  case (Return w1)
  with assms(1) have "procs w1 = procs w" by (simp add: quiet_def world_of_def)
  with assms(2) [of w1] Return show ?thesis by (simp add: andThen_def quiet_def)
qed

lemma fatal_only_quiet: "quiet w r \<Longrightarrow> fatal_only p w r"
  by (cases r) (auto simp: quiet_def fatal_only_def world_of_def failures_def)

lemma createFile_quiet: "quiet w (createFile e p s w)"
  by (simp add: quiet_def createFile_def world_of_def print_def split: prod.splits option.splits)

lemma createFile_Return:
  "createFile e p s w = Return w' \<Longrightarrow> w' = w\<lparr>fs := (fs w)(p \<mapsto> File s)\<rparr>"
  by (auto simp: createFile_def os_Create_def file_Write_def split: prod.splits option.splits if_splits)

lemma createCMakeLists_quiet: "quiet w (createCMakeLists e d w)"
  by (simp add: quiet_def createCMakeLists_def world_of_def print_def split: prod.splits option.splits)

lemma createCMakeLists_Return:
  "createCMakeLists e d w = Return w' \<Longrightarrow>
     w' = w\<lparr>fs := (fs w)([ProjectName d, ''CMakeLists.txt''] \<mapsto> File (cmakeTemplate d))\<rparr>"
  by (auto simp: createCMakeLists_def os_Create_def file_Write_def split: prod.splits option.splits if_splits)

lemma createCMakePresets_quiet: "quiet w (createCMakePresets e d w)"
  by (simp add: quiet_def createCMakePresets_def world_of_def print_def split: prod.splits option.splits)

lemma createCMakePresets_Return:
  "createCMakePresets e d w = Return w' \<Longrightarrow>
     w' = w\<lparr>fs := (fs w)([ProjectName d, ''CMakePresets.json''] \<mapsto> File (presetsJSON e d))\<rparr>"
  by (auto simp: createCMakePresets_def os_WriteFile_def os_Create_def file_Write_def
           split: prod.splits option.splits if_splits)

lemma createDirs_quiet: "quiet w (createDirs e d dirs w)"
  by (induction dirs arbitrary: w)
     (auto simp: quiet_def world_of_def print_def split: prod.splits option.splits)

lemma createMainFile_quiet: "quiet w (createMainFile e d w)"
  by (simp add: createMainFile_def quiet_andThen createFile_quiet quiet_Return)

lemma failures_frame [simp]:
  "failures (w\<lparr>fs := f\<rparr>) = failures w" "failures (print s w) = failures w"
  by (simp_all add: failures_def print_def)

lemma fatal_only_Return: "fatal_only p w (Return w)"
  by (simp add: fatal_only_def)

lemma fatal_only_start: "failures w = failures w0 \<Longrightarrow> fatal_only p w r \<Longrightarrow> fatal_only p w0 r"
  by (cases r) (auto simp: fatal_only_def)

lemma reported_print:
  assumes "prefix ''Error '' m"
  shows "reported err (print (m @ err @ ''\<newline>'') w)"
proof -
  have "prefix ''Error '' (m @ err @ ''\<newline>'')"
    using assms by (rule prefix_prefix)
  moreover have "suffix (err @ ''\<newline>'') (m @ err @ ''\<newline>'')"
    unfolding suffix_def by blast
  ultimately show ?thesis
    unfolding reported_def print_def by simp
qed

lemma cmd_Run_fatal_only:
  assumes "c \<noteq> git_init p" and "c \<noteq> git_add p" and "prefix ''Error '' m"
    and "\<And>w2. fatal_only p w2 (k w2)"
  shows "fatal_only p w
           (case cmd_Run e c w of
              (Some err, w2) \<Rightarrow> Exit 1 (print (m @ err @ ''\<newline>'') w2)
            | (None, w2) \<Rightarrow> k w2)"
proof (cases "proc e c (fs w)")
  case (Pair r f')
  define w2 where "w2 = w\<lparr>fs := f', procs := procs w @ [(c, r)]\<rparr>"
  have run: "cmd_Run e c w = (r, w2)"
    by (simp add: cmd_Run_def Pair w2_def)
  show ?thesis
  proof (cases r)
    case None
    then have "failures w2 = failures w"
      by (simp add: w2_def failures_def)
    then have "fatal_only p w (k w2)"
      using assms(4) [of w2] by (rule fatal_only_start)
    with run None show ?thesis by simp
  next
    case (Some err)
    then have "failures w2 = failures w @ [(c, err)]"
      by (simp add: w2_def failures_def)
    moreover have "reported err (print (m @ err @ ''\<newline>'') w2)"
      using assms(3) by (simp add: reported_print)
    ultimately show ?thesis
      using run Some assms(1,2) by (simp add: fatal_only_def)
  qed
qed

lemma cloneVcpkg_fatal_only: "fatal_only p w (cloneVcpkg e d w)"
  unfolding cloneVcpkg_def Let_def
  apply (rule fatal_only_start [of "print ''Cloning vcpkg...\<newline>'' w"], simp)
  apply (rule cmd_Run_fatal_only)
     apply (simp add: git_init_def)
    apply (simp add: git_add_def)
   apply (simp add: prefix_def)
  apply (rule fatal_only_start [of "print ''Bootstrapping vcpkg...\<newline>'' w2" for w2], simp)
  apply (rule cmd_Run_fatal_only)
     apply (simp add: git_init_def)
    apply (simp add: git_add_def)
   apply (simp add: prefix_def)
  apply (rule fatal_only_start [of "print ''Creting vcpkg manifes...\<newline>'' w2" for w2], simp)
  apply (rule cmd_Run_fatal_only)
     apply (simp add: git_init_def)
    apply (simp add: git_add_def)
   apply (simp add: prefix_def)
  apply (rule fatal_only_Return)
  done

lemma write_manifest_fatal_only:
  "fatal_only p w1
     (case os_WriteFile e (fs w1) q s of
        (Some err, f') \<Rightarrow> Exit 1 (print (m err) (w1\<lparr>fs := f'\<rparr>))
      | (None, f') \<Rightarrow> createCMakePresets e d (w1\<lparr>fs := f'\<rparr>))"
proof (cases "os_WriteFile e (fs w1) q s")
  case (Pair r f')
  show ?thesis
  proof (cases r)
    case None
    have "fatal_only p (w1\<lparr>fs := f'\<rparr>) (createCMakePresets e d (w1\<lparr>fs := f'\<rparr>))"
      by (rule fatal_only_quiet [OF createCMakePresets_quiet])
    then have "fatal_only p w1 (createCMakePresets e d (w1\<lparr>fs := f'\<rparr>))"
      by (rule fatal_only_start [rotated]) simp
    with Pair None show ?thesis by simp
  next
    case (Some err)
    with Pair show ?thesis by (simp add: fatal_only_def)
  qed
qed

lemma setupVcpkg_fatal_only: "fatal_only p w (setupVcpkg e d w)"
  unfolding setupVcpkg_def
  apply (rule fatal_only_andThen)
   apply (simp add: cloneVcpkg_fatal_only fatal_only_Return)
  apply (rule write_manifest_fatal_only)
  done

lemma createProjectStructure_fatal_only: "fatal_only p w (createProjectStructure e d w)"
  unfolding createProjectStructure_def
  apply (rule fatal_only_andThen)
   apply (rule fatal_only_quiet [OF createDirs_quiet])
  apply (rule fatal_only_andThen)
   apply (rule fatal_only_quiet [OF createCMakeLists_quiet])
  apply (rule fatal_only_andThen)
   apply (simp add: setupVcpkg_fatal_only fatal_only_Return)
  apply (rule fatal_only_andThen)
   apply (rule fatal_only_quiet [OF createMainFile_quiet])
  apply (simp add: fatal_only_def)
  done

lemma failures_iff: "(c, err) \<in> set (failures w) \<longleftrightarrow> (c, Some err) \<in> set (procs w)"
  by (force simp: failures_def split: option.splits)

lemma soft_only_start: "failures w = failures w0 \<Longrightarrow> soft_only p w r \<Longrightarrow> soft_only p w0 r"
  by (cases r) (auto simp: soft_only_def)

lemma soft_only_Return: "soft_only p w (Return (print s w))"
  by (simp add: soft_only_def)

lemma soft_only_andThen:
  assumes "quiet w r" and "\<And>w1. soft_only p w1 (k w1)"
  shows "soft_only p w (andThen r k)"
proof (cases r)
  case (Exit c w')
  with assms(1) show ?thesis
    by (simp add: andThen_def quiet_def world_of_def soft_only_def failures_def)
next
  case (Return w1)
  with assms(1) have "failures w1 = failures w"
    by (simp add: quiet_def world_of_def failures_def)
  then have "soft_only p w (k w1)"
    using assms(2) [of w1] by (rule soft_only_start)
  with Return show ?thesis by (simp add: andThen_def)
qed

lemma cmd_Run_soft_only:
  assumes "c = git_init p \<or> c = git_add p" and "prefix ''Error '' m"
    and "\<And>w2. soft_only p w2 (k w2)"
  shows "soft_only p w
           (case cmd_Run e c w of
              (Some err, w2) \<Rightarrow> Return (print (m @ err @ ''\<newline>'') w2)
            | (None, w2) \<Rightarrow> k w2)"
proof (cases "proc e c (fs w)")
  case (Pair r f')
  define w2 where "w2 = w\<lparr>fs := f', procs := procs w @ [(c, r)]\<rparr>"
  have run: "cmd_Run e c w = (r, w2)"
    by (simp add: cmd_Run_def Pair w2_def)
  show ?thesis
  proof (cases r)
    case None
    then have "failures w2 = failures w"
      by (simp add: w2_def failures_def)
    then have "soft_only p w (k w2)"
      using assms(3) [of w2] by (rule soft_only_start)
    with run None show ?thesis by simp
  next
    case (Some err)
    then have "failures w2 = failures w @ [(c, err)]"
      by (simp add: w2_def failures_def)
    moreover have "reported err (print (m @ err @ ''\<newline>'') w2)"
      using assms(2) by (rule reported_print)
    ultimately show ?thesis
      using run Some assms(1) by (simp add: soft_only_def)
  qed
qed

lemma initializeVersionControl_soft_only: "soft_only p w (initializeVersionControl e p w)"
  unfolding initializeVersionControl_def Let_def
  apply (split if_split, intro conjI impI)
   apply (rule soft_only_start [of "print ''Do you want to initialize Git version control? (y/n): '' w"], simp)
   apply (rule cmd_Run_soft_only)
     apply (simp add: git_init_def)
    apply (simp add: prefix_def)
   apply (rule soft_only_andThen [OF createFile_quiet])
   apply (rule soft_only_andThen [OF createFile_quiet])
   apply (rule cmd_Run_soft_only)
     apply (simp add: git_add_def)
    apply (simp add: prefix_def)
   apply (rule soft_only_Return)
  apply (rule soft_only_start [of "print ''Do you want to initialize Git version control? (y/n): '' w"], simp)
  apply (rule soft_only_Return)
  done

lemma createDirs_empty:
  assumes "fault e = (\<lambda>op. None)"
  shows "createDirs e d [''src'', ''include'', ''build''] \<lparr>fs = Map.empty, stdout = out, procs = ps\<rparr> =
         Return \<lparr>fs = [[ProjectName d] \<mapsto> Dir, [ProjectName d, ''src''] \<mapsto> Dir,
                       [ProjectName d, ''include''] \<mapsto> Dir, [ProjectName d, ''build''] \<mapsto> Dir],
                 stdout = out, procs = ps\<rparr>"
  using assms by (simp add: os_MkdirAll.simps os_Mkdir_def)

lemma generation_on_empty:
  assumes "tools_work e d" and "PackageMgr d = ''vcpkg''" and "Lang d = ''cpp'' \<or> Lang d = ''c''"
  shows "createProjectStructure e d \<lparr>fs = Map.empty, stdout = out, procs = ps\<rparr> =
         Return \<lparr>fs = project_tree e d,
                 stdout = out @ [''Cloning vcpkg...\<newline>'', ''Bootstrapping vcpkg...\<newline>'',
                                 ''Creting vcpkg manifes...\<newline>'',
                                 ''Project '' @ ProjectName d @ '' created successfully.\<newline>''],
                 procs = ps @ map (\<lambda>c. (c, None)) (vcpkg_commands e d)\<rparr>"
proof -
  have f: "fault e = (\<lambda>op. None)" and wf: "write_fault e = (\<lambda>p. None)"
    using assms(1) by (simp_all add: tools_work_def)
  have p: "\<And>f. list_all (\<lambda>c. proc e c f = (None, f)) (vcpkg_commands e d)"
    using assms(1) by (simp add: tools_work_def)
  note p' = p [unfolded vcpkg_commands_def, simplified]
  show ?thesis
    unfolding createProjectStructure_def createDirs_empty [OF f]
    using assms(2,3) f wf p'
    by (auto simp: andThen_def createCMakeLists_def os_Create_def file_Write_def setupVcpkg_def
          stat_IsNotExist_def cloneVcpkg_def cmd_Run_def print_def Let_def os_WriteFile_def
          createCMakePresets_def createMainFile_def createFile_def project_tree_def
          vcpkg_commands_def)
qed

lemma main_valid:
  assumes "projectName fl \<noteq> []" and "lang fl = ''cpp'' \<or> lang fl = ''c''" and "pkgmgr fl = ''vcpkg''"
  shows "main e fl f0 =
     (case getCMakeVersion e \<lparr>fs = f0, stdout = [], procs = []\<rparr> of
           (Inl err, w1) \<Rightarrow>
             (1, print (''Error retrieving CMake version: '' @ err @ ''\<newline>'') w1)
         | (Inr cmakeVersion, w1) \<Rightarrow>
             (case createProjectStructure e (projectData fl cmakeVersion) w1 of
                Exit c w2 \<Rightarrow> (c, w2)
              | Return w2 \<Rightarrow>
                  (case initializeVersionControl e (projectName fl) w2 of
                     Exit c w3 \<Rightarrow> (c, w3)
                   | Return w3 \<Rightarrow> (0, w3))))"
  using assms by (auto simp: main_def Let_def)

lemma main_generated:
  assumes "projectName fl \<noteq> []" and "lang fl = ''cpp'' \<or> lang fl = ''c''" and "pkgmgr fl = ''vcpkg''"
    and "cmake_run e = Inr out" and "FindStringSubmatch out = Some v"
    and "tools_work e (projectData fl v)"
  shows "main e fl Map.empty =
           (case initializeVersionControl e (projectName fl) (generated e (projectData fl v)) of
              Exit c w \<Rightarrow> (c, w)
            | Return w \<Rightarrow> (0, w))"
proof -
  have d: "PackageMgr (projectData fl v) = ''vcpkg''"
    "Lang (projectData fl v) = ''cpp'' \<or> Lang (projectData fl v) = ''c''"
    using assms(2,3) by (auto simp: projectData_def)
  have g: "getCMakeVersion e \<lparr>fs = Map.empty, stdout = [], procs = []\<rparr> =
             (Inr v, \<lparr>fs = Map.empty, stdout = [], procs = [(Command ''cmake'' [''--version''] [], None)]\<rparr>)"
    using assms(4,5) by (simp add: getCMakeVersion_def)
  show ?thesis
    unfolding main_valid [OF assms(1-3)] g
    by (simp add: generation_on_empty [OF assms(6) d] generated_def)
qed

lemma demo_tools_work: "tools_work demo_env d"
  by (simp add: tools_work_def demo_env_def vcpkg_commands_def)

lemma failing_tools_work: "bad \<notin> set (vcpkg_commands (failing_env bad) d) \<Longrightarrow> tools_work (failing_env bad) d"
  by (auto simp: tools_work_def failing_env_def demo_env_def vcpkg_commands_def)

lemma grows_andThen:
  assumes "grows w r" and "\<And>w1. grows w1 (k w1)"
  shows "grows w (andThen r k)"
proof (cases r)
  case (Exit c w')
  with assms(1) show ?thesis by (simp add: andThen_def grows_def world_of_def)
next
  case (Return w1)
  with assms(1) have "prefix (procs w) (procs w1)" by (simp add: grows_def world_of_def)
  moreover have "prefix (procs w1) (procs (world_of (k w1)))"
    using assms(2) [of w1] by (simp add: grows_def)
  ultimately show ?thesis
    using Return by (simp add: andThen_def grows_def)
qed

lemma grows_quiet: "quiet w r \<Longrightarrow> grows w r"
  by (simp add: quiet_def grows_def)

lemma grows_Return: "grows w (Return (print s w))"
  by (simp add: grows_def world_of_def print_def)

lemma grows_start: "procs w = procs w0 \<Longrightarrow> grows w r \<Longrightarrow> grows w0 r"
  by (simp add: grows_def)

lemma cmd_Run_grows:
  assumes "\<And>err w2. grows w2 (h err w2)" and "\<And>w2. grows w2 (k w2)"
  shows "grows w (case cmd_Run e c w of (Some err, w2) \<Rightarrow> h err w2 | (None, w2) \<Rightarrow> k w2)"
proof (cases "proc e c (fs w)")
  case (Pair r f')
  define w2 where "w2 = w\<lparr>fs := f', procs := procs w @ [(c, r)]\<rparr>"
  have run: "cmd_Run e c w = (r, w2)"
    by (simp add: cmd_Run_def Pair w2_def)
  have p: "prefix (procs w) (procs w2)"
    by (simp add: w2_def)
  show ?thesis
  proof (cases r)
    case None
    with run p assms(2) [of w2] show ?thesis by (auto simp: grows_def)
  next
    case (Some err)
    with run p assms(1) [of w2 err] show ?thesis by (auto simp: grows_def)
  qed
qed

lemma grows_refl: "grows w (Return w)"
  by (simp add: grows_def world_of_def)

lemma grows_Exit: "grows w (Exit c (print s w))"
  by (simp add: grows_def world_of_def print_def)

lemma cloneVcpkg_grows: "grows w (cloneVcpkg e d w)"
  unfolding cloneVcpkg_def Let_def
  apply (rule grows_start [of "print ''Cloning vcpkg...\<newline>'' w"], simp add: print_def)
  apply (rule cmd_Run_grows, rule grows_Exit)
  apply (rule grows_start [of "print ''Bootstrapping vcpkg...\<newline>'' w2" for w2], simp add: print_def)
  apply (rule cmd_Run_grows, rule grows_Exit)
  apply (rule grows_start [of "print ''Creting vcpkg manifes...\<newline>'' w2" for w2], simp add: print_def)
  apply (rule cmd_Run_grows, rule grows_Exit)
  apply (rule grows_refl)
  done

lemma write_manifest_grows:
  "grows w1
     (case os_WriteFile e (fs w1) q s of
        (Some err, f') \<Rightarrow> Exit 1 (print (m err) (w1\<lparr>fs := f'\<rparr>))
      | (None, f') \<Rightarrow> createCMakePresets e d (w1\<lparr>fs := f'\<rparr>))"
proof (cases "os_WriteFile e (fs w1) q s")
  case (Pair r f')
  show ?thesis
  proof (cases r)
    case None
    have "grows (w1\<lparr>fs := f'\<rparr>) (createCMakePresets e d (w1\<lparr>fs := f'\<rparr>))"
      by (rule grows_quiet [OF createCMakePresets_quiet])
    then have "grows w1 (createCMakePresets e d (w1\<lparr>fs := f'\<rparr>))"
      by (rule grows_start [rotated]) simp
    with Pair None show ?thesis by simp
  next
    case (Some err)
    with Pair show ?thesis by (simp add: grows_def world_of_def print_def)
  qed
qed

lemma setupVcpkg_grows: "grows w (setupVcpkg e d w)"
  unfolding setupVcpkg_def
  apply (rule grows_andThen)
   apply (simp add: cloneVcpkg_grows grows_refl)
  apply (rule write_manifest_grows)
  done

lemma createProjectStructure_grows: "grows w (createProjectStructure e d w)"
  unfolding createProjectStructure_def
  apply (rule grows_andThen)
   apply (rule grows_quiet [OF createDirs_quiet])
  apply (rule grows_andThen)
   apply (rule grows_quiet [OF createCMakeLists_quiet])
  apply (rule grows_andThen)
   apply (simp add: setupVcpkg_grows grows_refl)
  apply (rule grows_andThen)
   apply (rule grows_quiet [OF createMainFile_quiet])
  apply (simp add: grows_def world_of_def print_def)
  done

lemma initializeVersionControl_grows: "grows w (initializeVersionControl e p w)"
  unfolding initializeVersionControl_def Let_def
  apply (split if_split, intro conjI impI)
   apply (rule grows_start [of "print ''Do you want to initialize Git version control? (y/n): '' w"], simp add: print_def)
   apply (rule cmd_Run_grows)
    apply (rule grows_Return)
   apply (rule grows_andThen [OF grows_quiet [OF createFile_quiet]])
   apply (rule grows_andThen [OF grows_quiet [OF createFile_quiet]])
   apply (rule cmd_Run_grows)
    apply (rule grows_Return)
   apply (rule grows_Return)
  apply (simp add: grows_def world_of_def print_def)
  done

lemma main_probes_version:
  assumes "projectName fl \<noteq> []" and "lang fl = ''cpp'' \<or> lang fl = ''c''" and "pkgmgr fl = ''vcpkg''"
  shows "\<exists>r rest. procs (snd (main e fl f0)) = (Command ''cmake'' [''--version''] [], r) # rest"
proof -
  let ?w0 = "\<lparr>fs = f0, stdout = [], procs = []\<rparr>"
  obtain r1 w1 where g: "getCMakeVersion e ?w0 = (r1, w1)"
    by (cases "getCMakeVersion e ?w0")
  then obtain r where p1: "procs w1 = [(Command ''cmake'' [''--version''] [], r)]"
    by (auto simp: getCMakeVersion_def split: sum.splits)
  show ?thesis
  proof (cases r1)
    case (Inl err)
    then show ?thesis
      using g p1 by (simp add: main_valid [OF assms] print_def)
  next
    case (Inr v)
    let ?r2 = "createProjectStructure e (projectData fl v) w1"
    have g2: "prefix (procs w1) (procs (world_of ?r2))"
      using createProjectStructure_grows [of w1 e "projectData fl v"] by (simp add: grows_def)
    show ?thesis
    proof (cases ?r2)
      case (Exit c w2)
      then show ?thesis
        using g Inr g2 p1 by (auto simp: main_valid [OF assms] world_of_def prefix_def)
    next
      case (Return w2)
      let ?r3 = "initializeVersionControl e (projectName fl) w2"
      have "prefix (procs w2) (procs (world_of ?r3))"
        using initializeVersionControl_grows [of w2 e "projectName fl"] by (simp add: grows_def)
      then have "prefix (procs w1) (procs (world_of ?r3))"
        using g2 Return by (auto simp: world_of_def)
      then show ?thesis
        using g Inr Return p1
        by (cases ?r3) (auto simp: main_valid [OF assms] world_of_def prefix_def)
    qed
  qed
qed

lemma andThen_Return:
  "andThen r k = Return w' \<Longrightarrow> \<exists>w1. r = Return w1 \<and> k w1 = Return w'"
  by (cases r) (simp_all add: andThen_def)

lemma os_WriteFile_ok:
  "os_WriteFile e f p s = (None, f') \<Longrightarrow> f' = f(p \<mapsto> File s)"
  by (auto simp: os_WriteFile_def os_Create_def file_Write_def split: prod.splits option.splits if_splits)

lemma setupVcpkg_Return:
  assumes "setupVcpkg e d w = Return w'"
  shows "fs w' [ProjectName d, ''vcpkg.json''] = Some (File manifestJSON)
       \<and> fs w' [ProjectName d, ''CMakePresets.json''] = Some (File (presetsJSON e d))"
proof -
  from assms obtain w1 where
    k: "(case os_WriteFile e (fs w1) [ProjectName d, ''vcpkg.json''] manifestJSON of
           (Some err, f') \<Rightarrow>
             Exit 1 (print (''Error writing vcpkg manifest: '' @ err @ ''\<newline>'') (w1\<lparr>fs := f'\<rparr>))
         | (None, f') \<Rightarrow> createCMakePresets e d (w1\<lparr>fs := f'\<rparr>)) = Return w'"
    unfolding setupVcpkg_def by (blast dest: andThen_Return)
  obtain r f' where wf: "os_WriteFile e (fs w1) [ProjectName d, ''vcpkg.json''] manifestJSON = (r, f')"
    by (cases "os_WriteFile e (fs w1) [ProjectName d, ''vcpkg.json''] manifestJSON")
  with k have r: "r = None" and p: "createCMakePresets e d (w1\<lparr>fs := f'\<rparr>) = Return w'"
    by (cases r; simp)+
  have "f' = (fs w1)([ProjectName d, ''vcpkg.json''] \<mapsto> File manifestJSON)"
    using wf r by (simp add: os_WriteFile_ok)
  with createCMakePresets_Return [OF p] show ?thesis by simp
qed

lemma createMainFile_Return:
  assumes "createMainFile e d w = Return w'"
  shows "w' = (if Lang d = ''cpp'' then
                 w\<lparr>fs := (fs w)([ProjectName d, ''src'', ''main.cpp''] \<mapsto> File cppMainTemplate,
                                 [ProjectName d, ''include'', ''pch.hpp''] \<mapsto> File pchTemplate)\<rparr>
               else if Lang d = ''c'' then
                 w\<lparr>fs := (fs w)([ProjectName d, ''src'', ''main.c''] \<mapsto> File cppMainTemplate)\<rparr>
               else w)"
proof (cases "Lang d = ''cpp''")
  case True
  with assms obtain w1 where
    a: "createFile e [ProjectName d, ''src'', ''main.cpp''] cppMainTemplate w = Return w1"
    and b: "createFile e [ProjectName d, ''include'', ''pch.hpp''] pchTemplate w1 = Return w'"
    unfolding createMainFile_def by (auto dest: andThen_Return)
  show ?thesis
    using True createFile_Return [OF a] createFile_Return [OF b] by simp
next
  case False
  with assms show ?thesis
    by (auto simp: createMainFile_def dest: createFile_Return)
qed

lemma createProjectStructure_Return:
  assumes "createProjectStructure e d w = Return w'"
  shows "\<exists>w3 w4. (if PackageMgr d = ''vcpkg'' then setupVcpkg e d else Return) w3 = Return w4
           \<and> (\<exists>w5. createMainFile e d w4 = Return w5
               \<and> w' = print (''Project '' @ ProjectName d @ '' created successfully.\<newline>'') w5)"
proof -
  from assms obtain w1 where
    "andThen (createCMakeLists e d w1) (\<lambda>w2.
     andThen (if PackageMgr d = ''vcpkg'' then setupVcpkg e d w2 else Return w2) (\<lambda>w3.
     andThen (createMainFile e d w3) (\<lambda>w4.
     Return (print (''Project '' @ ProjectName d @ '' created successfully.\<newline>'') w4)))) = Return w'"
    unfolding createProjectStructure_def by (blast dest: andThen_Return)
  then obtain w2 where
    "andThen (if PackageMgr d = ''vcpkg'' then setupVcpkg e d w2 else Return w2) (\<lambda>w3.
     andThen (createMainFile e d w3) (\<lambda>w4.
     Return (print (''Project '' @ ProjectName d @ '' created successfully.\<newline>'') w4))) = Return w'"
    by (blast dest: andThen_Return)
  then obtain w3 where s: "(if PackageMgr d = ''vcpkg'' then setupVcpkg e d w2 else Return w2) = Return w3"
    and "andThen (createMainFile e d w3) (\<lambda>w4.
     Return (print (''Project '' @ ProjectName d @ '' created successfully.\<newline>'') w4)) = Return w'"
    by (blast dest: andThen_Return)
  then obtain w4 where m: "createMainFile e d w3 = Return w4"
    and "Return (print (''Project '' @ ProjectName d @ '' created successfully.\<newline>'') w4) = Return w'"
    by (blast dest: andThen_Return)
  then have "w' = print (''Project '' @ ProjectName d @ '' created successfully.\<newline>'') w4"
    by simp
  with s m show ?thesis
    by (cases "PackageMgr d = ''vcpkg''") auto
qed

lemma createProjectStructure_package_files:
  assumes "createProjectStructure e d w = Return w'" and "PackageMgr d = ''vcpkg''"
  shows "fs w' [ProjectName d, ''vcpkg.json''] = Some (File manifestJSON)
       \<and> fs w' [ProjectName d, ''CMakePresets.json''] = Some (File (presetsJSON e d))"
proof -
  from createProjectStructure_Return [OF assms(1)] assms(2) obtain w3 w4 w5 where
    s: "setupVcpkg e d w3 = Return w4" and m: "createMainFile e d w4 = Return w5"
    and w': "w' = print (''Project '' @ ProjectName d @ '' created successfully.\<newline>'') w5"
    by auto
  show ?thesis
    using setupVcpkg_Return [OF s] createMainFile_Return [OF m] w'
    by (simp add: print_def)
qed

text \<open>
  Whenever a generation pass returns, the starter file is there, and for either language
  its content is the one template the program has.
\<close>

lemma createProjectStructure_starter_file:
  assumes "createProjectStructure e d w = Return w'"
  shows "(Lang d = ''cpp'' \<longrightarrow>
            fs w' [ProjectName d, ''src'', ''main.cpp''] = Some (File cppMainTemplate)
          \<and> fs w' [ProjectName d, ''include'', ''pch.hpp''] = Some (File pchTemplate))
       \<and> (Lang d = ''c'' \<longrightarrow>
            fs w' [ProjectName d, ''src'', ''main.c''] = Some (File cppMainTemplate))"
proof -
  from createProjectStructure_Return [OF assms] obtain w4 w5 where
    m: "createMainFile e d w4 = Return w5"
    and w': "w' = print (''Project '' @ ProjectName d @ '' created successfully.\<newline>'') w5"
    by auto
  show ?thesis
    using createMainFile_Return [OF m] w' by (auto simp: print_def)
qed

lemma os_Mkdir_keeps: "os_Mkdir e f p = (r, f') \<Longrightarrow> f q = Some n \<Longrightarrow> f' q = Some n"
  by (auto simp: os_Mkdir_def split: if_splits option.splits)

lemma os_Mkdir_makes: "os_Mkdir e f p = (None, f') \<Longrightarrow> f' p = Some Dir"
  by (auto simp: os_Mkdir_def split: if_splits option.splits)

lemma os_MkdirAll_existing:
  "p \<noteq> [] \<Longrightarrow> fault e (OpStat p) = None \<Longrightarrow> f p = Some Dir \<Longrightarrow> os_MkdirAll e f p = (None, f)"
  by (subst os_MkdirAll.simps) simp

lemma os_MkdirAll_keeps:
  "os_MkdirAll e f p = (r, f') \<Longrightarrow> f q = Some n \<Longrightarrow> f' q = Some n"
proof (induction e f p arbitrary: r f' rule: os_MkdirAll.induct)
  case (1 e f p)
  show ?case
  proof (cases "p \<noteq> [] \<and> fault e (OpStat p) = None \<and> f p \<noteq> None")
    case True
    with "1.prems" show ?thesis
      by (subst (asm) os_MkdirAll.simps) (auto split: if_splits)
  next
    case False
    obtain r1 f1 where up: "(if butlast p \<noteq> [] then os_MkdirAll e f (butlast p) else (None, f)) = (r1, f1)"
      by (cases "if butlast p \<noteq> [] then os_MkdirAll e f (butlast p) else (None, f)")
    have k1: "f1 q = Some n"
    proof (cases "butlast p \<noteq> []")
      case True
      with up have "os_MkdirAll e f (butlast p) = (r1, f1)" by simp
      from "1.IH" [OF False True this "1.prems"(2)] show ?thesis .
    next
      case False
      with up "1.prems"(2) show ?thesis by simp
    qed
    obtain r2 f2 where mk: "os_Mkdir e f1 p = (r2, f2)"
      by (cases "os_Mkdir e f1 p")
    have k2: "f2 q = Some n"
      using os_Mkdir_keeps [OF mk k1] .
    from "1.prems"(1) have "f' = f1 \<or> f' = f2"
      by (subst (asm) os_MkdirAll.simps)
         (use False up mk in \<open>auto simp del: os_MkdirAll.simps split: option.splits if_splits\<close>)
    with k1 k2 show ?thesis by auto
  qed
qed

lemma os_MkdirAll_makes:
  assumes "os_MkdirAll e f p = (None, f')" and "p \<noteq> []"
  shows "f' p = Some Dir"
proof (cases "p \<noteq> [] \<and> fault e (OpStat p) = None \<and> f p \<noteq> None")
  case True
  with assms(1) show ?thesis
    by (subst (asm) os_MkdirAll.simps) (auto split: if_splits)
next
  case False
  obtain r1 f1 where up: "(if butlast p \<noteq> [] then os_MkdirAll e f (butlast p) else (None, f)) = (r1, f1)"
    by (cases "if butlast p \<noteq> [] then os_MkdirAll e f (butlast p) else (None, f)")
  obtain r2 f2 where mk: "os_Mkdir e f1 p = (r2, f2)"
    by (cases "os_Mkdir e f1 p")
  from assms(1) have "f' = f2 \<and> (r2 = None \<or> f2 p = Some Dir)"
    by (subst (asm) os_MkdirAll.simps)
       (use False up mk in \<open>auto simp del: os_MkdirAll.simps split: option.splits if_splits\<close>)
  with mk show ?thesis
    by (auto dest: os_Mkdir_makes)
qed

lemma createDirs_keeps:
  "createDirs e d dirs w = Return w' \<Longrightarrow> fs w q = Some n \<Longrightarrow> fs w' q = Some n"
proof (induction dirs arbitrary: w)
  case Nil
  then show ?case by simp
next
  case (Cons dir dirs)
  obtain r f1 where m: "os_MkdirAll e (fs w) [ProjectName d, dir] = (r, f1)"
    by (cases "os_MkdirAll e (fs w) [ProjectName d, dir]")
  with Cons.prems(1) have r: "r = None" and rest: "createDirs e d dirs (w\<lparr>fs := f1\<rparr>) = Return w'"
    by (cases r; simp)+
  have "f1 q = Some n"
    using os_MkdirAll_keeps [OF m Cons.prems(2)] .
  then show ?case
    using Cons.IH [OF rest] by simp
qed

lemma createDirs_makes:
  "createDirs e d dirs w = Return w' \<Longrightarrow> dir \<in> set dirs \<Longrightarrow> fs w' [ProjectName d, dir] = Some Dir"
proof (induction dirs arbitrary: w)
  case Nil
  then show ?case by simp
next
  case (Cons x dirs)
  obtain r f1 where m: "os_MkdirAll e (fs w) [ProjectName d, x] = (r, f1)"
    by (cases "os_MkdirAll e (fs w) [ProjectName d, x]")
  with Cons.prems(1) have r: "r = None" and rest: "createDirs e d dirs (w\<lparr>fs := f1\<rparr>) = Return w'"
    by (cases r; simp)+
  show ?case
  proof (cases "dir = x")
    case True
    have "f1 [ProjectName d, x] = Some Dir"
      using m r by (auto intro: os_MkdirAll_makes)
    then show ?thesis
      using createDirs_keeps [OF rest, of "[ProjectName d, x]" Dir] True by simp
  next
    case False
    with Cons.prems(2) have "dir \<in> set dirs" by simp
    then show ?thesis using Cons.IH [OF rest] by simp
  qed
qed

lemma createDirs_existing:
  "(\<forall>dir \<in> set dirs. fs w [ProjectName d, dir] = Some Dir \<and> fault e (OpStat [ProjectName d, dir]) = None)
     \<Longrightarrow> createDirs e d dirs w = Return w"
  by (induction dirs) (simp_all add: os_MkdirAll_existing)

lemma os_MkdirAll_asks_again:
  assumes "f [n] = Some Dir" and "fault e (OpStat [n]) = None"
    and "f [n, dir] = Some Dir" and "fault e (OpLstat [n, dir]) = None"
  shows "os_MkdirAll e f [n, dir] = (None, f)"
proof (cases "fault e (OpStat [n, dir]) = None")
  case True
  with assms(3) show ?thesis by (simp add: os_MkdirAll_existing)
next
  case False
  have up: "os_MkdirAll e f [n] = (None, f)"
    using assms(1,2) by (simp add: os_MkdirAll_existing)
  have mk: "os_Mkdir e f [n, dir] = (Some ''file exists'', f)"
    using assms(3) by (simp add: os_Mkdir_def)
  show ?thesis
    by (subst os_MkdirAll.simps) (use False up mk assms(3,4) in simp)
qed

lemma initializeVersionControl_skip:
  assumes "strings_TrimSpace (strings_ToLower (ReadString (CHR 0x0A) (stdin e))) \<notin> {''y'', ''yes''}"
  shows "initializeVersionControl e p w =
           Return (w\<lparr>stdout := stdout w @
                      [''Do you want to initialize Git version control? (y/n): '',
                       ''Skipped Git initialization.\<newline>'']\<rparr>)"
  using assms by (simp add: initializeVersionControl_def print_def Let_def)

lemma main_declined:
  assumes "projectName fl \<noteq> []" and "lang fl = ''cpp'' \<or> lang fl = ''c''" and "pkgmgr fl = ''vcpkg''"
    and "cmake_run e = Inr out" and "FindStringSubmatch out = Some v"
    and "tools_work e (projectData fl v)"
    and "strings_TrimSpace (strings_ToLower (ReadString (CHR 0x0A) (stdin e))) \<notin> {''y'', ''yes''}"
  shows "main e fl Map.empty =
           (0, (generated e (projectData fl v))
                 \<lparr>stdout := stdout (generated e (projectData fl v)) @
                     [''Do you want to initialize Git version control? (y/n): '',
                      ''Skipped Git initialization.\<newline>'']\<rparr>)"
  unfolding main_generated [OF assms(1-6)] initializeVersionControl_skip [OF assms(7)]
  by simp

lemma demo_main:
  assumes "l = ''cpp'' \<or> l = ''c''"
  shows "main demo_env (demo_flags\<lparr>lang := l, projectType := t, standard := s\<rparr>) Map.empty =
           (0, (generated demo_env (projectData (demo_flags\<lparr>lang := l, projectType := t, standard := s\<rparr>) ''3.28.1''))
                 \<lparr>stdout := stdout (generated demo_env (projectData (demo_flags\<lparr>lang := l, projectType := t, standard := s\<rparr>) ''3.28.1'')) @
                     [''Do you want to initialize Git version control? (y/n): '',
                      ''Skipped Git initialization.\<newline>'']\<rparr>)"
proof (rule main_declined [OF _ _ _ _ demo_version demo_tools_work])
  show "strings_TrimSpace (strings_ToLower (ReadString (CHR 0x0A) (stdin demo_env))) \<notin> {''y'', ''yes''}"
    by (simp add: demo_env_def answer_n)
qed (use assms in \<open>simp_all add: demo_flags_def default_flags_def demo_env_def\<close>)

text \<open>
  A generation pass into a place where the project is not yet, on a machine where the
  tools work: it returns, and the directories and files of the project are those of
  \<open>project_tree\<close>, whatever else the external commands have made. The version-control step
  after it leaves them alone.
\<close>

lemma cmd_Run_pair:
  "cmd_Run e c w = (fst (proc e c (fs w)), w\<lparr>fs := snd (proc e c (fs w)), procs := procs w @ [(c, fst (proc e c (fs w)))]\<rparr>)"
  by (simp add: cmd_Run_def split: prod.splits)

lemma generation_in_fresh:
  assumes "tools_succeed e d" and "PackageMgr d = ''vcpkg''" and "Lang d = ''cpp'' \<or> Lang d = ''c''"
    and "fresh d (fs w)"
  shows "\<exists>w2. createProjectStructure e d w = Return w2
            \<and> (\<forall>q \<in> set (project_paths d). fs w2 q = project_tree e d q)"
proof -
  have f: "fault e = (\<lambda>op. None)" and wf: "write_fault e = (\<lambda>p. None)"
    using assms(1) by (simp_all add: tools_succeed_def)
  have K: "\<And>c f q. q \<in> set (project_paths d) \<Longrightarrow> snd (proc e c f) q = f q"
    using assms(1) by (simp add: tools_succeed_def tools_keep_def)
  have S: "\<And>f. list_all (\<lambda>c. fst (proc e c f) = None) (vcpkg_commands e d)"
    using assms(1) by (simp add: tools_succeed_def)
  note S' = S [unfolded vcpkg_commands_def, simplified]
  note K' = K [unfolded project_paths_def Let_def, simplified]
  have F: "\<forall>q \<in> set (project_paths d). fs w q = None"
    using assms(4) by (simp add: fresh_def)
  note F' = F [unfolded project_paths_def Let_def, simplified]
  show ?thesis
    using assms(2,3) f wf S' K' F'
    by (auto simp: createProjectStructure_def andThen_def os_MkdirAll.simps os_Mkdir_def
          createCMakeLists_def os_Create_def file_Write_def setupVcpkg_def
          cloneVcpkg_def cmd_Run_pair print_def Let_def os_WriteFile_def
          createCMakePresets_def createMainFile_def createFile_def project_tree_def
          project_paths_def)
qed

lemma untouched_andThen:
  assumes "untouched P w r" and "\<And>w1. untouched P w1 (k w1)"
  shows "untouched P w (andThen r k)"
proof (cases r)
  case (Exit c w')
  with assms(1) show ?thesis by (simp add: andThen_def untouched_def world_of_def)
next
  case (Return w1)
  with assms(1) have "\<forall>q \<in> P. fs w1 q = fs w q" by (simp add: untouched_def world_of_def)
  with assms(2) [of w1] Return show ?thesis by (simp add: andThen_def untouched_def)
qed

lemma untouched_print: "untouched P w (Return (print s w))" "untouched P w (Exit c (print s w))"
  by (simp_all add: untouched_def world_of_def print_def)

lemma untouched_start: "fs w = fs w0 \<Longrightarrow> untouched P w r \<Longrightarrow> untouched P w0 r"
  by (simp add: untouched_def)

lemma createFile_untouched: "p \<notin> P \<Longrightarrow> untouched P w (createFile e p s w)"
  by (auto simp: untouched_def createFile_def os_Create_def file_Write_def world_of_def print_def
        split: prod.splits option.splits if_splits)

lemma cmd_Run_untouched:
  assumes "tools_keep e d" and "P \<subseteq> set (project_paths d)"
    and "\<And>err w2. untouched P w2 (h err w2)" and "\<And>w2. untouched P w2 (k w2)"
  shows "untouched P w (case cmd_Run e c w of (Some err, w2) \<Rightarrow> h err w2 | (None, w2) \<Rightarrow> k w2)"
proof -
  let ?w2 = "w\<lparr>fs := snd (proc e c (fs w)), procs := procs w @ [(c, fst (proc e c (fs w)))]\<rparr>"
  have same: "\<forall>q \<in> P. fs ?w2 q = fs w q"
    using assms(1,2) by (auto simp: tools_keep_def)
  show ?thesis
  proof (cases "fst (proc e c (fs w))")
    case None
    with same assms(4) [of ?w2] show ?thesis
      by (simp add: cmd_Run_pair untouched_def)
  next
    case (Some err)
    with same assms(3) [of ?w2 err] show ?thesis
      by (simp add: cmd_Run_pair untouched_def)
  qed
qed

lemma initializeVersionControl_untouched:
  assumes "tools_keep e d"
  shows "untouched (set (project_paths d)) w (initializeVersionControl e (ProjectName d) w)"
  unfolding initializeVersionControl_def Let_def
  apply (split if_split, intro conjI impI)
   apply (rule untouched_start [of "print ''Do you want to initialize Git version control? (y/n): '' w"], simp add: print_def)
   apply (rule cmd_Run_untouched [OF assms subset_refl])
    apply (rule untouched_print)
   apply (rule untouched_andThen)
    apply (rule createFile_untouched, simp add: project_paths_def Let_def)
   apply (rule untouched_andThen)
    apply (rule createFile_untouched, simp add: project_paths_def Let_def)
   apply (rule cmd_Run_untouched [OF assms subset_refl])
    apply (rule untouched_print)
   apply (rule untouched_print)
  apply (simp add: untouched_def world_of_def print_def)
  done

lemma main_in_fresh:
  assumes "projectName fl \<noteq> []" and "lang fl = ''cpp'' \<or> lang fl = ''c''" and "pkgmgr fl = ''vcpkg''"
    and "cmake_run e = Inr out" and "FindStringSubmatch out = Some v"
    and "tools_succeed e (projectData fl v)" and "fresh (projectData fl v) f0"
  shows "\<exists>w2. createProjectStructure e (projectData fl v)
                 \<lparr>fs = f0, stdout = [], procs = [(Command ''cmake'' [''--version''] [], None)]\<rparr> = Return w2
            \<and> main e fl f0 =
                (case initializeVersionControl e (projectName fl) w2 of
                   Exit c w \<Rightarrow> (c, w)
                 | Return w \<Rightarrow> (0, w))
            \<and> (\<forall>q \<in> set (project_paths (projectData fl v)).
                  fs (snd (main e fl f0)) q = project_tree e (projectData fl v) q)"
proof -
  let ?d = "projectData fl v"
  let ?w1 = "\<lparr>fs = f0, stdout = [], procs = [(Command ''cmake'' [''--version''] [], None)]\<rparr>"
  have d: "PackageMgr ?d = ''vcpkg''" "Lang ?d = ''cpp'' \<or> Lang ?d = ''c''" "ProjectName ?d = projectName fl"
    using assms(2,3) by (auto simp: projectData_def)
  have g: "getCMakeVersion e \<lparr>fs = f0, stdout = [], procs = []\<rparr> = (Inr v, ?w1)"
    using assms(4,5) by (simp add: getCMakeVersion_def)
  have "fresh ?d (fs ?w1)"
    using assms(7) by simp
  from generation_in_fresh [OF assms(6) d(1,2) this] obtain w2 where
    gen: "createProjectStructure e ?d ?w1 = Return w2"
    and tree: "\<forall>q \<in> set (project_paths ?d). fs w2 q = project_tree e ?d q"
    by blast
  have m: "main e fl f0 =
             (case initializeVersionControl e (projectName fl) w2 of
                Exit c w \<Rightarrow> (c, w)
              | Return w \<Rightarrow> (0, w))"
    unfolding main_valid [OF assms(1-3)] g by (simp add: gen)
  have keep: "tools_keep e ?d"
    using assms(6) by (simp add: tools_succeed_def)
  have "untouched (set (project_paths ?d)) w2 (initializeVersionControl e (ProjectName ?d) w2)"
    using keep by (rule initializeVersionControl_untouched)
  then have "\<forall>q \<in> set (project_paths ?d). fs (snd (main e fl f0)) q = fs w2 q"
    unfolding m d(3)
    by (cases "initializeVersionControl e (projectName fl) w2") (simp_all add: untouched_def world_of_def)
  with tree gen m show ?thesis by auto
qed

lemma clone_tools_succeed: "ProjectName d = ''demo'' \<Longrightarrow> tools_succeed clone_env d"
  by (simp add: tools_succeed_def tools_keep_def clone_env_def demo_env_def project_paths_def
        vcpkg_commands_def Let_def)

lemma empty_fresh: "fresh d Map.empty"
  by (simp add: fresh_def)

lemma tools_succeed_name:
  "ProjectName d' = ProjectName d \<Longrightarrow> tools_succeed e d' = tools_succeed e d"
  by (simp add: tools_succeed_def tools_keep_def project_paths_def vcpkg_commands_def)

lemma fresh_name: "ProjectName d' = ProjectName d \<Longrightarrow> fresh d' f = fresh d f"
  by (simp add: fresh_def project_paths_def)

lemma clone_version: "cmake_run clone_env = Inr ''cmake version 3.28.1\<newline>\<newline>CMake suite maintained and supported by Kitware (kitware.com/cmake).\<newline>''"
  by (simp add: clone_env_def demo_env_def)

lemma main_manifest:
  assumes "projectName fl \<noteq> []" and "lang fl = ''cpp'' \<or> lang fl = ''c''" and "pkgmgr fl = ''vcpkg''"
    and "cmake_run e = Inr out" and "FindStringSubmatch out = Some v"
    and "tools_succeed e (projectData fl v)" and "fresh (projectData fl v) f0"
  shows "fs (snd (main e fl f0)) [projectName fl, ''CMakeLists.txt'']
           = Some (File (cmakeTemplate (projectData fl v)))"
proof -
  let ?d = "projectData fl v"
  have n: "ProjectName ?d = projectName fl"
    by (simp add: projectData_def split: prod.splits)
  from main_in_fresh [OF assms] have
    "\<forall>q \<in> set (project_paths ?d). fs (snd (main e fl f0)) q = project_tree e ?d q"
    by blast
  then have "fs (snd (main e fl f0)) [ProjectName ?d, ''CMakeLists.txt'']
               = project_tree e ?d [ProjectName ?d, ''CMakeLists.txt'']"
    by (simp add: project_paths_def Let_def)
  then show ?thesis
    unfolding n using assms(2) by (auto simp: project_tree_def Let_def projectData_def)
qed


section \<open>What the manifest contains\<close>

text \<open>
  The version string is made of digits and dots, whatever \<^verbatim>\<open>cmake\<close> printed. The name and
  the standard are copied into the manifest as they are, so what the manifest contains
  beyond the text of the template depends on them.
\<close>

lemma match_number_digits: "match_number s = Some (a, r) \<Longrightarrow> a \<noteq> [] \<and> (\<forall>c \<in> set a. is_digit c)"
  by (auto simp: match_number_def split: if_splits dest: set_takeWhileD)

lemma match_version_chars:
  assumes "match_version s = Some v"
  shows "\<forall>c \<in> set v. is_digit c \<or> c = CHR ''.''"
  using assms
  by (auto simp: match_version_def split: option.splits prod.splits dest!: match_number_digits)

lemma FindStringSubmatch_chars:
  "FindStringSubmatch out = Some v \<Longrightarrow> \<forall>c \<in> set v. is_digit c \<or> c = CHR ''.''"
proof (induction out)
  case Nil
  then show ?case by simp
next
  case (Cons c cs)
  show ?case
  proof (cases "match_here (c # cs)")
    case None
    with Cons show ?thesis by simp
  next
    case (Some u)
    with Cons.prems have "u = v" by simp
    with Some have "match_version (drop (length ''cmake version '') (c # cs)) = Some v"
      by (simp add: match_here_def split: if_splits)
    then show ?thesis by (rule match_version_chars)
  qed
qed

lemma version_char:
  assumes "FindStringSubmatch out = Some v" and "\<not> is_digit x" and "x \<noteq> CHR ''.''"
  shows "x \<notin> set v"
  using FindStringSubmatch_chars [OF assms(1)] assms(2,3) by blast





section \<open>Descriptor derivation\<close>

text \<open>
  Claim C5. The derived fields of the descriptor are a function of the language alone:
  language \<^verbatim>\<open>cpp\<close> gives build tag \<^verbatim>\<open>CXX\<close> and extension \<^verbatim>\<open>cpp\<close>, language \<^verbatim>\<open>c\<close> gives build
  tag \<^verbatim>\<open>C\<close> and extension \<^verbatim>\<open>c\<close>, whatever the type, the standard and the other inputs are;
  changing type and standard changes neither of them.
\<close>

theorem derivation_by_language:
  assumes "lang fl = ''cpp'' \<or> lang fl = ''c''"
  shows "Lang (projectData fl v) = lang fl
       \<and> (lang fl = ''cpp'' \<longrightarrow>
            CMakeLang (projectData fl v) = ''CXX'' \<and> FileExt (projectData fl v) = ''cpp'')
       \<and> (lang fl = ''c'' \<longrightarrow>
            CMakeLang (projectData fl v) = ''C'' \<and> FileExt (projectData fl v) = ''c'')
       \<and> CMakeLang (projectData (fl\<lparr>projectType := t, standard := s\<rparr>) v)
           = CMakeLang (projectData fl v)
       \<and> FileExt (projectData (fl\<lparr>projectType := t, standard := s\<rparr>) v)
           = FileExt (projectData fl v)"
  using assms by (auto simp: projectData_def)

theorem derivation_by_language_witness:
  "(lang (demo_flags\<lparr>lang := ''c''\<rparr>) = ''cpp'' \<or> lang (demo_flags\<lparr>lang := ''c''\<rparr>) = ''c'')
   \<and> lang (demo_flags\<lparr>lang := ''c''\<rparr>) = ''c''
   \<and> CMakeLang (projectData (demo_flags\<lparr>lang := ''c''\<rparr>) ''3.28.1'') = ''C''
   \<and> FileExt (projectData (demo_flags\<lparr>lang := ''c''\<rparr>) ''3.28.1'') = ''c''
   \<and> CMakeLang (projectData (demo_flags\<lparr>lang := ''c'', projectType := ''library'', standard := ''99''\<rparr>) ''3.28.1'') = ''C''"
  using derivation_by_language [where fl = "demo_flags\<lparr>lang := ''c''\<rparr>" and v = "''3.28.1''"
          and t = "''library''" and s = "''99''"]
  by (simp add: demo_flags_def default_flags_def)

section \<open>Validation comes before any effect\<close>

text \<open>
  Claim C6. When the name is empty, the language is neither \<^verbatim>\<open>cpp\<close> nor \<^verbatim>\<open>c\<close>, or the
  package manager is not the supported one, the process ends with exit status 1 after
  printing the one error message of the first check that fails; the file system is the
  one it started with and no external command was run.
\<close>

theorem invalid_flags_exit_untouched:
  assumes "projectName fl = [] \<or> (lang fl \<noteq> ''cpp'' \<and> lang fl \<noteq> ''c'') \<or> pkgmgr fl \<noteq> ''vcpkg''"
  shows "fst (main e fl f0) = 1
       \<and> fs (snd (main e fl f0)) = f0
       \<and> procs (snd (main e fl f0)) = []
       \<and> stdout (snd (main e fl f0)) =
           [if projectName fl = [] then
              ''Error: Project name is required. Use -name to specify the project name.\<newline>''
            else if lang fl \<noteq> ''cpp'' \<and> lang fl \<noteq> ''c'' then
              ''Error: Unsupported language. Supported options: cpp, c\<newline>''
            else ''Error: Unsupported package manager. Only vcpkg is currently supported.\<newline>'']"
  using assms by (auto simp: main_def print_def Let_def)

theorem invalid_flags_exit_untouched_witness:
  "(projectName (demo_flags\<lparr>lang := ''rust''\<rparr>) = []
      \<or> (lang (demo_flags\<lparr>lang := ''rust''\<rparr>) \<noteq> ''cpp'' \<and> lang (demo_flags\<lparr>lang := ''rust''\<rparr>) \<noteq> ''c'')
      \<or> pkgmgr (demo_flags\<lparr>lang := ''rust''\<rparr>) \<noteq> ''vcpkg'')
   \<and> fst (main demo_env (demo_flags\<lparr>lang := ''rust''\<rparr>) Map.empty) = 1
   \<and> fs (snd (main demo_env (demo_flags\<lparr>lang := ''rust''\<rparr>) Map.empty)) = Map.empty
   \<and> procs (snd (main demo_env (demo_flags\<lparr>lang := ''rust''\<rparr>) Map.empty)) = []
   \<and> stdout (snd (main demo_env (demo_flags\<lparr>lang := ''rust''\<rparr>) Map.empty)) =
        [''Error: Unsupported language. Supported options: cpp, c\<newline>'']"
  using invalid_flags_exit_untouched [where fl = "demo_flags\<lparr>lang := ''rust''\<rparr>" and e = demo_env
          and ?f0.0 = Map.empty]
  by (simp add: demo_flags_def default_flags_def)

section \<open>The version-control prompt\<close>

text \<open>
  Claim C10. Whenever the line read from standard input, trimmed and lowered, is neither
  \<^verbatim>\<open>y\<close> nor \<^verbatim>\<open>yes\<close>, \<^verbatim>\<open>initializeVersionControl\<close> returns having only printed the prompt and
  the skip message: the file system and the list of external commands are those it was
  called with. (The program lowers first and trims second; the result is the same.)
\<close>

theorem other_answers_skip_git:
  assumes "strings_ToLower (strings_TrimSpace (ReadString (CHR 0x0A) (stdin e))) \<notin> {''y'', ''yes''}"
  shows "initializeVersionControl e p w =
           Return (w\<lparr>stdout := stdout w @
                      [''Do you want to initialize Git version control? (y/n): '',
                       ''Skipped Git initialization.\<newline>'']\<rparr>)
       \<and> fs (world_of (initializeVersionControl e p w)) = fs w
       \<and> procs (world_of (initializeVersionControl e p w)) = procs w"
proof -
  have "strings_TrimSpace (strings_ToLower (ReadString (CHR 0x0A) (stdin e))) \<notin> {''y'', ''yes''}"
    using assms by (simp add: trim_lower_commute)
  then have "initializeVersionControl e p w =
           Return (w\<lparr>stdout := stdout w @
                      [''Do you want to initialize Git version control? (y/n): '',
                       ''Skipped Git initialization.\<newline>'']\<rparr>)"
    by (simp add: initializeVersionControl_def print_def Let_def)
  then show ?thesis
    by (simp add: world_of_def)
qed

theorem other_answers_skip_git_witness:
  "strings_ToLower (strings_TrimSpace (ReadString (CHR 0x0A) (stdin (demo_env\<lparr>stdin := '' Maybe\<newline>y\<newline>''\<rparr>))))
     \<notin> {''y'', ''yes''}
   \<and> initializeVersionControl (demo_env\<lparr>stdin := '' Maybe\<newline>y\<newline>''\<rparr>) ''demo'' start_world =
       Return (start_world\<lparr>stdout := stdout start_world @
                  [''Do you want to initialize Git version control? (y/n): '',
                   ''Skipped Git initialization.\<newline>'']\<rparr>)"
proof -
  have ans: "strings_ToLower (strings_TrimSpace (ReadString (CHR 0x0A) '' Maybe\<newline>y\<newline>'')) = ''maybe''"
    by (simp add: trim_eval)
  then have h: "strings_ToLower (strings_TrimSpace
                  (ReadString (CHR 0x0A) (stdin (demo_env\<lparr>stdin := '' Maybe\<newline>y\<newline>''\<rparr>))))
                \<notin> {''y'', ''yes''}"
    by simp
  show ?thesis
    using h other_answers_skip_git [OF h, where p = "''demo''" and w = start_world] by simp
qed

section \<open>Failing external commands\<close>

text \<open>
  Claim C2, as the program has it. In every run, an external command that ended with an
  error had its error reported in the last message printed. If the command is the
  version probe or one of the three bootstrap commands, the process ended with exit
  status 1. If it is \<^verbatim>\<open>git init\<close> or \<^verbatim>\<open>git add\<close>, the failure is not fatal: \<^verbatim>\<open>main\<close> returned
  and the exit status is 0.
\<close>

theorem tool_failure_exit_status:
  assumes "main e fl f0 = (code, w)" and "(c, Some err) \<in> set (procs w)"
  shows "reported err w
       \<and> (if c = git_init (projectName fl) \<or> c = git_add (projectName fl) then code = 0 else code = 1)"
proof -
  let ?p = "projectName fl"
  let ?w0 = "\<lparr>fs = f0, stdout = [], procs = []\<rparr>"
  have valid: "projectName fl \<noteq> [] \<and> (lang fl = ''cpp'' \<or> lang fl = ''c'') \<and> pkgmgr fl = ''vcpkg''"
    using assms by (auto simp: main_def Let_def print_def split: if_splits)
  have mem: "(c, err) \<in> set (failures w)"
    using assms(2) by (simp add: failures_iff)
  obtain r1 w1 where g: "getCMakeVersion e ?w0 = (r1, w1)"
    by (cases "getCMakeVersion e ?w0")
  show ?thesis
  proof (cases r1)
    case (Inl msg)
    then have code: "code = 1"
      and w: "w = print (''Error retrieving CMake version: '' @ msg @ ''\<newline>'') w1"
      using assms(1) valid g by (auto simp: main_def Let_def)
    have rep: "reported msg w"
      unfolding w by (rule reported_print) simp
    have "procs w = procs w1"
      by (simp add: w print_def)
    then have "c = Command ''cmake'' [''--version''] [] \<and> err = msg"
      using assms(2) g Inl
      by (auto simp: getCMakeVersion_def split: sum.splits option.splits)
    then show ?thesis
      using rep code by (simp add: git_init_def git_add_def)
  next
    case (Inr v)
    then have f1: "failures w1 = []"
      using g by (auto simp: getCMakeVersion_def failures_def split: sum.splits option.splits)
    have m: "main e fl f0 =
        (case createProjectStructure e (projectData fl v) w1 of
           Exit c w2 \<Rightarrow> (c, w2)
         | Return w2 \<Rightarrow>
             (case initializeVersionControl e ?p w2 of
                Exit c w3 \<Rightarrow> (c, w3)
              | Return w3 \<Rightarrow> (0, w3)))"
      using valid g Inr by (auto simp: main_def Let_def)
    have cps: "fatal_only ?p w1 (createProjectStructure e (projectData fl v) w1)"
      by (rule createProjectStructure_fatal_only)
    show ?thesis
    proof (cases "createProjectStructure e (projectData fl v) w1")
      case (Exit c2 w2)
      then show ?thesis
        using cps m assms(1) f1 mem by (auto simp: fatal_only_def)
    next
      case (Return w2)
      then have f2: "failures w2 = []"
        using cps f1 by (simp add: fatal_only_def)
      have "soft_only ?p w2 (initializeVersionControl e ?p w2)"
        by (rule initializeVersionControl_soft_only)
      then show ?thesis
        using Return m assms(1) f2 mem
        by (cases "initializeVersionControl e ?p w2") (auto simp: soft_only_def git_init_def git_add_def)
    qed
  qed
qed

theorem tool_failure_exit_status_witness:
  "main (demo_env\<lparr>cmake_run := Inl ''executable file not found''\<rparr>) demo_flags Map.empty =
     (1, \<lparr>fs = Map.empty,
          stdout = [''Error retrieving CMake version: executable file not found\<newline>''],
          procs = [(Command ''cmake'' [''--version''] [], Some ''executable file not found'')]\<rparr>)
   \<and> (Command ''cmake'' [''--version''] [], Some ''executable file not found'')
       \<in> set (procs \<lparr>fs = Map.empty,
          stdout = [''Error retrieving CMake version: executable file not found\<newline>''],
          procs = [(Command ''cmake'' [''--version''] [], Some ''executable file not found'')]\<rparr>)
   \<and> reported ''executable file not found''
         \<lparr>fs = Map.empty,
          stdout = [''Error retrieving CMake version: executable file not found\<newline>''],
          procs = [(Command ''cmake'' [''--version''] [], Some ''executable file not found'')]\<rparr>
   \<and> Command ''cmake'' [''--version''] [] \<noteq> git_init ''demo''
   \<and> Command ''cmake'' [''--version''] [] \<noteq> git_add ''demo''"
proof -
  let ?w = "\<lparr>fs = Map.empty,
          stdout = [''Error retrieving CMake version: executable file not found\<newline>''],
          procs = [(Command ''cmake'' [''--version''] [], Some ''executable file not found'')]\<rparr>"
  have run: "main (demo_env\<lparr>cmake_run := Inl ''executable file not found''\<rparr>) demo_flags Map.empty = (1, ?w)"
    by (simp add: main_def demo_flags_def default_flags_def demo_env_def getCMakeVersion_def
          print_def)
  have mem: "(Command ''cmake'' [''--version''] [], Some ''executable file not found'') \<in> set (procs ?w)"
    by simp
  show ?thesis
    using run mem tool_failure_exit_status [OF run mem]
    by (simp add: git_init_def git_add_def)
qed

text \<open>
  Claim C2 as it was stated fails for the command it names: with a \<^verbatim>\<open>git init\<close> that
  exits with an error and a user who answers \<^verbatim>\<open>y\<close>, the process ends with exit status 0.
\<close>

theorem git_init_failure_exits_0:
  "(git_init ''demo'', Some ''exit status 128'')
     \<in> set (procs (snd (main (failing_env (git_init ''demo'')) demo_flags Map.empty)))
   \<and> fst (main (failing_env (git_init ''demo'')) demo_flags Map.empty) = 0"
proof -
  have t: "tools_work (failing_env (git_init ''demo'')) (projectData demo_flags ''3.28.1'')"
    by (rule failing_tools_work) (simp add: vcpkg_commands_def git_init_def)
  have m: "main (failing_env (git_init ''demo'')) demo_flags Map.empty =
           (case initializeVersionControl (failing_env (git_init ''demo'')) (projectName demo_flags)
                   (generated (failing_env (git_init ''demo'')) (projectData demo_flags ''3.28.1'')) of
              Exit c w \<Rightarrow> (c, w)
            | Return w \<Rightarrow> (0, w))"
    by (rule main_generated [OF _ _ _ _ demo_version t])
       (simp_all add: demo_flags_def default_flags_def failing_env_def demo_env_def)
  show ?thesis
    unfolding m
    by (simp add: initializeVersionControl_def Let_def failing_env_def demo_env_def answer_y
          cmd_Run_def git_init_def demo_flags_def default_flags_def print_def)
qed

section \<open>The package manager\<close>

text \<open>
  Claim C3, as the program has it. With a name and a supported language, the one value
  the package-manager flag may have is \<^verbatim>\<open>vcpkg\<close>. Every other value ends the process with
  exit status 1 and the unsupported-package-manager message before anything else happens.
  With \<^verbatim>\<open>vcpkg\<close> the run goes on to the version probe, and every generation pass that
  returns has written the package-manager manifest and the presets file.
\<close>

theorem only_vcpkg_is_accepted:
  assumes "projectName fl \<noteq> []" and "lang fl = ''cpp'' \<or> lang fl = ''c''"
  shows "(pkgmgr fl \<noteq> ''vcpkg'' \<longrightarrow>
            main e fl f0 =
              (1, \<lparr>fs = f0,
                   stdout = [''Error: Unsupported package manager. Only vcpkg is currently supported.\<newline>''],
                   procs = []\<rparr>))
       \<and> (pkgmgr fl = ''vcpkg'' \<longrightarrow>
            (\<exists>r rest. procs (snd (main e fl f0)) = (Command ''cmake'' [''--version''] [], r) # rest)
            \<and> PackageMgr (projectData fl v) = ''vcpkg''
            \<and> (\<forall>w w'. createProjectStructure e (projectData fl v) w = Return w' \<longrightarrow>
                  fs w' [projectName fl, ''vcpkg.json''] = Some (File manifestJSON)
                \<and> fs w' [projectName fl, ''CMakePresets.json'']
                    = Some (File (presetsJSON e (projectData fl v)))))"
proof (intro conjI impI allI)
  assume "pkgmgr fl \<noteq> ''vcpkg''"
  with assms show "main e fl f0 =
              (1, \<lparr>fs = f0,
                   stdout = [''Error: Unsupported package manager. Only vcpkg is currently supported.\<newline>''],
                   procs = []\<rparr>)"
    by (auto simp: main_def Let_def print_def)
next
  assume "pkgmgr fl = ''vcpkg''"
  with assms show "\<exists>r rest. procs (snd (main e fl f0)) = (Command ''cmake'' [''--version''] [], r) # rest"
    by (rule main_probes_version)
next
  assume "pkgmgr fl = ''vcpkg''"
  then show "PackageMgr (projectData fl v) = ''vcpkg''"
    by (simp add: projectData_def split: prod.splits)
next
  fix w w'
  assume pm: "pkgmgr fl = ''vcpkg''"
    and r: "createProjectStructure e (projectData fl v) w = Return w'"
  have d: "PackageMgr (projectData fl v) = ''vcpkg''" "ProjectName (projectData fl v) = projectName fl"
    using pm by (simp_all add: projectData_def split: prod.splits)
  show "fs w' [projectName fl, ''vcpkg.json''] = Some (File manifestJSON)"
    using createProjectStructure_package_files [OF r d(1)] d(2) by simp
  show "fs w' [projectName fl, ''CMakePresets.json''] = Some (File (presetsJSON e (projectData fl v)))"
    using createProjectStructure_package_files [OF r d(1)] d(2) by simp
qed

theorem only_vcpkg_is_accepted_witness:
  "projectName demo_flags \<noteq> [] \<and> (lang demo_flags = ''cpp'' \<or> lang demo_flags = ''c'')
   \<and> pkgmgr demo_flags = ''vcpkg''
   \<and> (\<exists>r rest. procs (snd (main demo_env demo_flags Map.empty))
                     = (Command ''cmake'' [''--version''] [], r) # rest)
   \<and> createProjectStructure demo_env (projectData demo_flags ''3.28.1'') start_world =
         Return \<lparr>fs = project_tree demo_env (projectData demo_flags ''3.28.1''),
                 stdout = [''Cloning vcpkg...\<newline>'', ''Bootstrapping vcpkg...\<newline>'',
                           ''Creting vcpkg manifes...\<newline>'',
                           ''Project demo created successfully.\<newline>''],
                 procs = map (\<lambda>c. (c, None))
                           (vcpkg_commands demo_env (projectData demo_flags ''3.28.1''))\<rparr>
   \<and> project_tree demo_env (projectData demo_flags ''3.28.1'') [''demo'', ''vcpkg.json'']
         = Some (File manifestJSON)
   \<and> project_tree demo_env (projectData demo_flags ''3.28.1'') [''demo'', ''CMakePresets.json'']
         = Some (File (presetsJSON demo_env (projectData demo_flags ''3.28.1'')))
   \<and> pkgmgr (demo_flags\<lparr>pkgmgr := ''conan''\<rparr>) \<noteq> ''vcpkg''
   \<and> main demo_env (demo_flags\<lparr>pkgmgr := ''conan''\<rparr>) Map.empty =
         (1, \<lparr>fs = Map.empty,
              stdout = [''Error: Unsupported package manager. Only vcpkg is currently supported.\<newline>''],
              procs = []\<rparr>)"
proof -
  let ?d = "projectData demo_flags ''3.28.1''"
  have h: "projectName demo_flags \<noteq> []" "lang demo_flags = ''cpp'' \<or> lang demo_flags = ''c''"
    and pm: "pkgmgr demo_flags = ''vcpkg''"
    by (simp_all add: demo_flags_def default_flags_def)
  have h': "projectName (demo_flags\<lparr>pkgmgr := ''conan''\<rparr>) \<noteq> []"
    "lang (demo_flags\<lparr>pkgmgr := ''conan''\<rparr>) = ''cpp'' \<or> lang (demo_flags\<lparr>pkgmgr := ''conan''\<rparr>) = ''c''"
    and pm': "pkgmgr (demo_flags\<lparr>pkgmgr := ''conan''\<rparr>) \<noteq> ''vcpkg''"
    by (simp_all add: demo_flags_def default_flags_def)
  have d: "PackageMgr ?d = ''vcpkg''" "Lang ?d = ''cpp'' \<or> Lang ?d = ''c''" "ProjectName ?d = ''demo''"
    by (simp_all add: projectData_def demo_flags_def default_flags_def)
  have run: "createProjectStructure demo_env ?d start_world =
         Return \<lparr>fs = project_tree demo_env ?d,
                 stdout = [''Cloning vcpkg...\<newline>'', ''Bootstrapping vcpkg...\<newline>'',
                           ''Creting vcpkg manifes...\<newline>'',
                           ''Project demo created successfully.\<newline>''],
                 procs = map (\<lambda>c. (c, None)) (vcpkg_commands demo_env ?d)\<rparr>"
    unfolding start_world_def
    using generation_on_empty [OF demo_tools_work d(1,2), of "[]" "[]"] d(3) by simp
  note a = only_vcpkg_is_accepted [OF h, where e = demo_env and ?f0.0 = Map.empty and v = "''3.28.1''"]
  note b = only_vcpkg_is_accepted [OF h', where e = demo_env and ?f0.0 = Map.empty and v = "''3.28.1''"]
  have files: "project_tree demo_env ?d [''demo'', ''vcpkg.json''] = Some (File manifestJSON)
     \<and> project_tree demo_env ?d [''demo'', ''CMakePresets.json''] = Some (File (presetsJSON demo_env ?d))"
  proof -
    have nm: "projectName demo_flags = ''demo''"
      by (simp add: demo_flags_def default_flags_def)
    from a pm have "\<forall>w w'. createProjectStructure demo_env ?d w = Return w' \<longrightarrow>
                  fs w' [projectName demo_flags, ''vcpkg.json''] = Some (File manifestJSON)
                \<and> fs w' [projectName demo_flags, ''CMakePresets.json'']
                    = Some (File (presetsJSON demo_env ?d))"
      by blast
    from this [rule_format, OF run] show ?thesis
      unfolding nm by simp
  qed
  show ?thesis
    using h pm pm' a b run files by simp
qed

text \<open>
  Claim C3 as it was stated fails: \<^verbatim>\<open>none\<close> is not accepted. The run ends with exit
  status 1 and the unsupported-package-manager message.
\<close>

theorem none_is_rejected:
  "main demo_env (demo_flags\<lparr>pkgmgr := ''none''\<rparr>) Map.empty =
     (1, \<lparr>fs = Map.empty,
          stdout = [''Error: Unsupported package manager. Only vcpkg is currently supported.\<newline>''],
          procs = []\<rparr>)"
  by (simp add: main_def demo_flags_def default_flags_def print_def)

section \<open>Creating the directories\<close>

text \<open>
  Claim C7. A directory that is there already is no error. When \<^verbatim>\<open>Stat\<close> works on the
  directories of the project and all of them exist, the loop that creates them returns at
  once with the world as it was. When the loop has returned, all of them exist and what
  was there before is still there; so a second pass, on any machine on which \<^verbatim>\<open>Stat\<close>
  works on them, returns with nothing changed, whether or not that machine could create
  a directory. And where \<^verbatim>\<open>Stat\<close> fails on an existing directory, the \<^verbatim>\<open>Mkdir\<close> that then
  fails with "file exists" is forgiven as soon as \<^verbatim>\<open>Lstat\<close> finds the directory.
\<close>

theorem directory_creation_is_idempotent:
  "((\<forall>dir \<in> set dirs. fs w [ProjectName d, dir] = Some Dir
                      \<and> fault e (OpStat [ProjectName d, dir]) = None) \<longrightarrow>
      createDirs e d dirs w = Return w)
   \<and> (createDirs e d dirs w = Return w' \<longrightarrow>
        (\<forall>dir \<in> set dirs. fs w' [ProjectName d, dir] = Some Dir)
      \<and> (\<forall>q n. fs w q = Some n \<longrightarrow> fs w' q = Some n)
      \<and> ((\<forall>dir \<in> set dirs. fault e' (OpStat [ProjectName d, dir]) = None) \<longrightarrow>
           createDirs e' d dirs w' = Return w'))
   \<and> (f [n] = Some Dir \<and> fault e (OpStat [n]) = None
      \<and> f [n, sub] = Some Dir \<and> fault e (OpLstat [n, sub]) = None \<longrightarrow>
        os_MkdirAll e f [n, sub] = (None, f))"
proof (intro conjI impI ballI allI)
  assume "\<forall>dir \<in> set dirs. fs w [ProjectName d, dir] = Some Dir
                      \<and> fault e (OpStat [ProjectName d, dir]) = None"
  then show "createDirs e d dirs w = Return w" by (rule createDirs_existing)
next
  fix dir
  assume "createDirs e d dirs w = Return w'" and "dir \<in> set dirs"
  then show "fs w' [ProjectName d, dir] = Some Dir" by (rule createDirs_makes)
next
  fix q n
  assume "createDirs e d dirs w = Return w'" and "fs w q = Some n"
  then show "fs w' q = Some n" by (rule createDirs_keeps)
next
  assume "createDirs e d dirs w = Return w'"
    and "\<forall>dir \<in> set dirs. fault e' (OpStat [ProjectName d, dir]) = None"
  then have "\<forall>dir \<in> set dirs. fs w' [ProjectName d, dir] = Some Dir
                      \<and> fault e' (OpStat [ProjectName d, dir]) = None"
    by (blast intro: createDirs_makes)
  then show "createDirs e' d dirs w' = Return w'" by (rule createDirs_existing)
next
  assume "f [n] = Some Dir \<and> fault e (OpStat [n]) = None
      \<and> f [n, sub] = Some Dir \<and> fault e (OpLstat [n, sub]) = None"
  then show "os_MkdirAll e f [n, sub] = (None, f)"
    by (blast intro: os_MkdirAll_asks_again)
qed

theorem directory_creation_is_idempotent_witness:
  "createDirs demo_env (projectData demo_flags ''3.28.1'') [''src'', ''include'', ''build''] start_world =
     Return \<lparr>fs = [[''demo''] \<mapsto> Dir, [''demo'', ''src''] \<mapsto> Dir,
                   [''demo'', ''include''] \<mapsto> Dir, [''demo'', ''build''] \<mapsto> Dir],
             stdout = [], procs = []\<rparr>
   \<and> fault read_only_env (OpStat [''demo'', ''src'']) = None
   \<and> fault read_only_env (OpStat [''demo'', ''include'']) = None
   \<and> fault read_only_env (OpStat [''demo'', ''build'']) = None
   \<and> fault read_only_env (OpMkdir [''demo'', ''build'']) = Some ''permission denied''
   \<and> createDirs read_only_env
         (projectData demo_flags ''3.28.1'') [''src'', ''include'', ''build'']
         \<lparr>fs = [[''demo''] \<mapsto> Dir, [''demo'', ''src''] \<mapsto> Dir,
                 [''demo'', ''include''] \<mapsto> Dir, [''demo'', ''build''] \<mapsto> Dir],
           stdout = [], procs = []\<rparr> =
     Return \<lparr>fs = [[''demo''] \<mapsto> Dir, [''demo'', ''src''] \<mapsto> Dir,
                   [''demo'', ''include''] \<mapsto> Dir, [''demo'', ''build''] \<mapsto> Dir],
             stdout = [], procs = []\<rparr>
   \<and> fault (demo_env\<lparr>fault := (\<lambda>op. if op = OpStat [''demo'', ''build'']
                                       then Some ''input/output error'' else None)\<rparr>)
         (OpStat [''demo'', ''build'']) = Some ''input/output error''
   \<and> os_MkdirAll (demo_env\<lparr>fault := (\<lambda>op. if op = OpStat [''demo'', ''build'']
                                             then Some ''input/output error'' else None)\<rparr>)
         [[''demo''] \<mapsto> Dir, [''demo'', ''src''] \<mapsto> Dir,
          [''demo'', ''include''] \<mapsto> Dir, [''demo'', ''build''] \<mapsto> Dir] [''demo'', ''build''] =
       (None, [[''demo''] \<mapsto> Dir, [''demo'', ''src''] \<mapsto> Dir,
               [''demo'', ''include''] \<mapsto> Dir, [''demo'', ''build''] \<mapsto> Dir])"
proof -
  let ?d = "projectData demo_flags ''3.28.1''"
  let ?dirs = "[''src'', ''include'', ''build'']"
  let ?f = "[[''demo''] \<mapsto> Dir, [''demo'', ''src''] \<mapsto> Dir,
             [''demo'', ''include''] \<mapsto> Dir, [''demo'', ''build''] \<mapsto> Dir]"
  let ?W = "\<lparr>fs = ?f, stdout = [], procs = []\<rparr>"
  let ?e2 = "demo_env\<lparr>fault := (\<lambda>op. if op = OpStat [''demo'', ''build'']
                                       then Some ''input/output error'' else None)\<rparr>"
  have n: "ProjectName ?d = ''demo''"
    by (simp add: projectData_def demo_flags_def default_flags_def)
  have run: "createDirs demo_env ?d ?dirs start_world = Return ?W"
    unfolding start_world_def
    using createDirs_empty [of demo_env ?d "[]" "[]"] n by (simp add: demo_env_def)
  have there: "fault read_only_env (OpStat [''demo'', ''src'']) = None"
    "fault read_only_env (OpStat [''demo'', ''include'']) = None"
    "fault read_only_env (OpStat [''demo'', ''build'']) = None"
    "fault read_only_env (OpMkdir [''demo'', ''build'']) = Some ''permission denied''"
    by (simp_all add: read_only_env_def)
  have stat: "\<forall>dir \<in> set ?dirs. fault read_only_env (OpStat [ProjectName ?d, dir]) = None"
    by (simp add: read_only_env_def)
  have io: "?f [''demo''] = Some Dir \<and> fault ?e2 (OpStat [''demo'']) = None
      \<and> ?f [''demo'', ''build''] = Some Dir \<and> fault ?e2 (OpLstat [''demo'', ''build'']) = None"
    by simp
  note a = directory_creation_is_idempotent
             [where e = demo_env and e' = read_only_env and d = ?d and dirs = ?dirs
                and w = start_world and w' = ?W]
  note b = directory_creation_is_idempotent
             [where e = ?e2 and f = ?f and n = "''demo''" and sub = "''build''"]
  from a run stat have again: "createDirs read_only_env ?d ?dirs ?W = Return ?W"
    by blast
  from b io have mk: "os_MkdirAll ?e2 ?f [''demo'', ''build''] = (None, ?f)"
    by blast
  show ?thesis
    using run there again mk by simp
qed

section \<open>The starter source file\<close>

text \<open>
  Claim C1 does not hold of the program: the starter file of a C project is the C++
  one. On the sample machine, the run for language \<^verbatim>\<open>c\<close> ends with exit status 0 and
  leaves in \<^verbatim>\<open>src/main.c\<close> the very bytes the run for language \<^verbatim>\<open>cpp\<close> leaves in
  \<^verbatim>\<open>src/main.cpp\<close>: they include \<^verbatim>\<open>pch.hpp\<close>, which the C run does not create, and write
  to \<^verbatim>\<open>std::cout\<close>.
\<close>

theorem c_project_gets_cpp_source:
  "fst (main demo_env (demo_flags\<lparr>lang := ''c''\<rparr>) Map.empty) = 0
   \<and> fs (snd (main demo_env (demo_flags\<lparr>lang := ''c''\<rparr>) Map.empty)) [''demo'', ''src'', ''main.c'']
       = Some (File cppMainTemplate)
   \<and> fs (snd (main demo_env (demo_flags\<lparr>lang := ''cpp''\<rparr>) Map.empty)) [''demo'', ''src'', ''main.cpp'']
       = Some (File cppMainTemplate)
   \<and> fs (snd (main demo_env (demo_flags\<lparr>lang := ''c''\<rparr>) Map.empty)) [''demo'', ''include'', ''pch.hpp'']
       = None
   \<and> sublist (''#include '' @ [CHR 0x22] @ ''pch.hpp'' @ [CHR 0x22]) cppMainTemplate
   \<and> sublist ''std::cout'' cppMainTemplate"
proof -
  have c: "main demo_env (demo_flags\<lparr>lang := ''c''\<rparr>) Map.empty =
           (0, (generated demo_env (projectData (demo_flags\<lparr>lang := ''c''\<rparr>) ''3.28.1''))
                 \<lparr>stdout := stdout (generated demo_env (projectData (demo_flags\<lparr>lang := ''c''\<rparr>) ''3.28.1'')) @
                     [''Do you want to initialize Git version control? (y/n): '',
                      ''Skipped Git initialization.\<newline>'']\<rparr>)"
    using demo_main [where l = "''c''" and t = "''executable''" and s = "''11''"]
    by (simp add: demo_flags_def default_flags_def)
  have cpp: "main demo_env (demo_flags\<lparr>lang := ''cpp''\<rparr>) Map.empty =
           (0, (generated demo_env (projectData (demo_flags\<lparr>lang := ''cpp''\<rparr>) ''3.28.1''))
                 \<lparr>stdout := stdout (generated demo_env (projectData (demo_flags\<lparr>lang := ''cpp''\<rparr>) ''3.28.1'')) @
                     [''Do you want to initialize Git version control? (y/n): '',
                      ''Skipped Git initialization.\<newline>'']\<rparr>)"
    using demo_main [where l = "''cpp''" and t = "''executable''" and s = "''11''"]
    by (simp add: demo_flags_def default_flags_def)
  have s1: "sublist (''#include '' @ [CHR 0x22] @ ''pch.hpp'' @ [CHR 0x22]) cppMainTemplate"
    unfolding cppMainTemplate_def by (simp add: sublist_Cons_right)
  have s2: "sublist ''std::cout'' cppMainTemplate"
    unfolding cppMainTemplate_def by (simp add: sublist_Cons_right)
  show ?thesis
    unfolding c cpp
    using s1 s2
    by (simp add: generated_def project_tree_def projectData_def demo_flags_def default_flags_def Let_def)
qed

section \<open>Declining version control\<close>

text \<open>
  Claim C8. When the line read at the prompt is \<^verbatim>\<open>n\<close>, \<^verbatim>\<open>initializeVersionControl\<close> prints
  the prompt and the skip message and does nothing else: it writes no file and runs no
  command. A run whose generation pass has returned therefore ends with exit status 0
  in the world the generation pass left, two messages apart: the generated files are as
  they were written, and neither \<^verbatim>\<open>.gitignore\<close> nor \<^verbatim>\<open>.gitattributes\<close> nor anything made by
  \<^verbatim>\<open>git\<close> has been added.
\<close>

theorem declining_git_changes_nothing:
  assumes "ReadString (CHR 0x0A) (stdin e) = ''n\<newline>''"
  shows "initializeVersionControl e p w =
           Return (w\<lparr>stdout := stdout w @
                      [''Do you want to initialize Git version control? (y/n): '',
                       ''Skipped Git initialization.\<newline>'']\<rparr>)
       \<and> (projectName fl \<noteq> [] \<longrightarrow> (lang fl = ''cpp'' \<or> lang fl = ''c'') \<longrightarrow> pkgmgr fl = ''vcpkg'' \<longrightarrow>
          getCMakeVersion e \<lparr>fs = f0, stdout = [], procs = []\<rparr> = (Inr v, w1) \<longrightarrow>
          createProjectStructure e (projectData fl v) w1 = Return w2 \<longrightarrow>
          main e fl f0 =
            (0, w2\<lparr>stdout := stdout w2 @
                      [''Do you want to initialize Git version control? (y/n): '',
                       ''Skipped Git initialization.\<newline>'']\<rparr>))"
proof -
  have a: "strings_TrimSpace (strings_ToLower (ReadString (CHR 0x0A) (stdin e))) \<notin> {''y'', ''yes''}"
    using assms by (simp add: trim_eval)
  have skip: "\<And>p w. initializeVersionControl e p w =
           Return (w\<lparr>stdout := stdout w @
                      [''Do you want to initialize Git version control? (y/n): '',
                       ''Skipped Git initialization.\<newline>'']\<rparr>)"
    using a by (rule initializeVersionControl_skip)
  show ?thesis
    by (auto simp: skip main_valid)
qed

theorem declining_git_changes_nothing_witness:
  "ReadString (CHR 0x0A) (stdin demo_env) = ''n\<newline>''
   \<and> projectName demo_flags \<noteq> [] \<and> (lang demo_flags = ''cpp'' \<or> lang demo_flags = ''c'')
   \<and> pkgmgr demo_flags = ''vcpkg''
   \<and> getCMakeVersion demo_env \<lparr>fs = Map.empty, stdout = [], procs = []\<rparr> =
       (Inr ''3.28.1'',
        \<lparr>fs = Map.empty, stdout = [], procs = [(Command ''cmake'' [''--version''] [], None)]\<rparr>)
   \<and> createProjectStructure demo_env (projectData demo_flags ''3.28.1'')
         \<lparr>fs = Map.empty, stdout = [], procs = [(Command ''cmake'' [''--version''] [], None)]\<rparr> =
       Return (generated demo_env (projectData demo_flags ''3.28.1''))
   \<and> main demo_env demo_flags Map.empty =
       (0, (generated demo_env (projectData demo_flags ''3.28.1''))
             \<lparr>stdout := stdout (generated demo_env (projectData demo_flags ''3.28.1'')) @
                 [''Do you want to initialize Git version control? (y/n): '',
                  ''Skipped Git initialization.\<newline>'']\<rparr>)
   \<and> fs (generated demo_env (projectData demo_flags ''3.28.1'')) [''demo'', ''.gitignore''] = None
   \<and> fs (generated demo_env (projectData demo_flags ''3.28.1'')) [''demo'', ''.gitattributes''] = None
   \<and> fs (generated demo_env (projectData demo_flags ''3.28.1'')) [''demo'', ''.git''] = None"
proof -
  let ?d = "projectData demo_flags ''3.28.1''"
  let ?w1 = "\<lparr>fs = Map.empty, stdout = [], procs = [(Command ''cmake'' [''--version''] [], None)]\<rparr>"
  have line: "ReadString (CHR 0x0A) (stdin demo_env) = ''n\<newline>''"
    by (simp add: demo_env_def ReadString_def)
  have fl: "projectName demo_flags \<noteq> []" "lang demo_flags = ''cpp'' \<or> lang demo_flags = ''c''"
    "pkgmgr demo_flags = ''vcpkg''"
    by (simp_all add: demo_flags_def default_flags_def)
  have probe: "getCMakeVersion demo_env \<lparr>fs = Map.empty, stdout = [], procs = []\<rparr> = (Inr ''3.28.1'', ?w1)"
    using demo_version by (simp add: getCMakeVersion_def demo_env_def)
  have d: "PackageMgr ?d = ''vcpkg''" "Lang ?d = ''cpp'' \<or> Lang ?d = ''c''"
    by (simp_all add: projectData_def demo_flags_def default_flags_def)
  have gen: "createProjectStructure demo_env ?d ?w1 = Return (generated demo_env ?d)"
    using generation_on_empty [OF demo_tools_work d, of "[]" "[(Command ''cmake'' [''--version''] [], None)]"]
    by (simp add: generated_def)
  have absent: "fs (generated demo_env ?d) [''demo'', ''.gitignore''] = None"
    "fs (generated demo_env ?d) [''demo'', ''.gitattributes''] = None"
    "fs (generated demo_env ?d) [''demo'', ''.git''] = None"
    by (simp_all add: generated_def project_tree_def projectData_def demo_flags_def default_flags_def Let_def)
  note a = declining_git_changes_nothing
             [OF line, where fl = demo_flags and ?f0.0 = Map.empty and v = "''3.28.1''"
                and ?w1.0 = ?w1 and ?w2.0 = "generated demo_env ?d"]
  from a fl probe gen have "main demo_env demo_flags Map.empty =
       (0, (generated demo_env ?d)
             \<lparr>stdout := stdout (generated demo_env ?d) @
                 [''Do you want to initialize Git version control? (y/n): '',
                  ''Skipped Git initialization.\<newline>'']\<rparr>)"
    by blast
  with line fl probe gen absent show ?thesis by simp
qed

section \<open>The manifest of the example run\<close>

text \<open>
  Claim C4. Take name \<^verbatim>\<open>demo\<close>, type \<^verbatim>\<open>executable\<close>, language \<^verbatim>\<open>cpp\<close> and standard \<^verbatim>\<open>17\<close>, and
  whatever version the probe found. The manifest rendered for them has the line
  \<^verbatim>\<open>set(CMAKE_CXX_STANDARD 17)\<close> and the line \<^verbatim>\<open>add_executable(demo src/main.cpp)\<close>; with
  language \<^verbatim>\<open>c\<close> instead, \<^verbatim>\<open>CMAKE_CXX_STANDARD\<close> occurs nowhere in it and it has the line
  \<^verbatim>\<open>set(CMAKE_C_STANDARD 17)\<close>. This rendered text is what the program writes: on any
  machine, when \<^verbatim>\<open>createCMakeLists\<close> returns, \<^verbatim>\<open>demo/CMakeLists.txt\<close> holds it; and on a
  machine where the tools work, started where the project is not yet, the run of
  \<^verbatim>\<open>main\<close> ends with \<^verbatim>\<open>demo/CMakeLists.txt\<close> holding it, whatever is answered at the prompt.
\<close>

theorem example_manifest_directives:
  assumes "FindStringSubmatch out = Some v"
  shows "sublist ''\<newline>set(CMAKE_CXX_STANDARD 17)\<newline>'' (cmakeTemplate (projectData demo17_flags v))
       \<and> sublist ''\<newline>add_executable(demo src/main.cpp)\<newline>'' (cmakeTemplate (projectData demo17_flags v))
       \<and> \<not> sublist ''CMAKE_CXX_STANDARD'' (cmakeTemplate (projectData (demo17_flags\<lparr>lang := ''c''\<rparr>) v))
       \<and> sublist ''\<newline>set(CMAKE_C_STANDARD 17)\<newline>''
           (cmakeTemplate (projectData (demo17_flags\<lparr>lang := ''c''\<rparr>) v))
       \<and> (createCMakeLists e (projectData demo17_flags v) w = Return w' \<longrightarrow>
            fs w' [''demo'', ''CMakeLists.txt''] = Some (File (cmakeTemplate (projectData demo17_flags v))))
       \<and> (createCMakeLists e (projectData (demo17_flags\<lparr>lang := ''c''\<rparr>) v) w = Return w'' \<longrightarrow>
            fs w'' [''demo'', ''CMakeLists.txt'']
              = Some (File (cmakeTemplate (projectData (demo17_flags\<lparr>lang := ''c''\<rparr>) v))))
       \<and> (cmake_run e = Inr out \<and> tools_succeed e (projectData demo17_flags v)
            \<and> fresh (projectData demo17_flags v) f0 \<longrightarrow>
            fs (snd (main e demo17_flags f0)) [''demo'', ''CMakeLists.txt'']
              = Some (File (cmakeTemplate (projectData demo17_flags v)))
          \<and> fs (snd (main e (demo17_flags\<lparr>lang := ''c''\<rparr>) f0)) [''demo'', ''CMakeLists.txt'']
              = Some (File (cmakeTemplate (projectData (demo17_flags\<lparr>lang := ''c''\<rparr>) v))))"
proof (intro conjI impI)
  have X: "CHR ''X'' \<notin> set v"
    using assms by (rule version_char) (simp_all add: is_digit_def)
  show "sublist ''\<newline>set(CMAKE_CXX_STANDARD 17)\<newline>'' (cmakeTemplate (projectData demo17_flags v))"
    by (simp add: cmakeTemplate_def projectData_def demo17_flags_def sublist_Cons_right sublist_append)
  show "sublist ''\<newline>add_executable(demo src/main.cpp)\<newline>'' (cmakeTemplate (projectData demo17_flags v))"
    by (simp add: cmakeTemplate_def projectData_def demo17_flags_def sublist_Cons_right sublist_append)
  have "CHR ''X'' \<notin> set (cmakeTemplate (projectData (demo17_flags\<lparr>lang := ''c''\<rparr>) v))"
    using X by (simp add: cmakeTemplate_def projectData_def demo17_flags_def)
  then show "\<not> sublist ''CMAKE_CXX_STANDARD'' (cmakeTemplate (projectData (demo17_flags\<lparr>lang := ''c''\<rparr>) v))"
    by (auto dest!: set_mono_sublist)
  show "sublist ''\<newline>set(CMAKE_C_STANDARD 17)\<newline>''
          (cmakeTemplate (projectData (demo17_flags\<lparr>lang := ''c''\<rparr>) v))"
    by (simp add: cmakeTemplate_def projectData_def demo17_flags_def sublist_Cons_right sublist_append)
next
  assume "createCMakeLists e (projectData demo17_flags v) w = Return w'"
  from createCMakeLists_Return [OF this]
  show "fs w' [''demo'', ''CMakeLists.txt''] = Some (File (cmakeTemplate (projectData demo17_flags v)))"
    by (simp add: projectData_def demo17_flags_def)
next
  assume "createCMakeLists e (projectData (demo17_flags\<lparr>lang := ''c''\<rparr>) v) w = Return w''"
  from createCMakeLists_Return [OF this]
  show "fs w'' [''demo'', ''CMakeLists.txt'']
          = Some (File (cmakeTemplate (projectData (demo17_flags\<lparr>lang := ''c''\<rparr>) v)))"
    by (simp add: projectData_def demo17_flags_def)
next
  assume h: "cmake_run e = Inr out \<and> tools_succeed e (projectData demo17_flags v)
            \<and> fresh (projectData demo17_flags v) f0"
  have fl: "projectName demo17_flags \<noteq> []" "lang demo17_flags = ''cpp'' \<or> lang demo17_flags = ''c''"
    "pkgmgr demo17_flags = ''vcpkg''" "projectName demo17_flags = ''demo''"
    by (simp_all add: demo17_flags_def)
  from main_manifest [OF fl(1-3) _ assms, of e f0] h
  show "fs (snd (main e demo17_flags f0)) [''demo'', ''CMakeLists.txt'']
          = Some (File (cmakeTemplate (projectData demo17_flags v)))"
    unfolding fl(4) by blast
next
  let ?fl = "demo17_flags\<lparr>lang := ''c''\<rparr>"
  assume h: "cmake_run e = Inr out \<and> tools_succeed e (projectData demo17_flags v)
            \<and> fresh (projectData demo17_flags v) f0"
  have fl: "projectName ?fl \<noteq> []" "lang ?fl = ''cpp'' \<or> lang ?fl = ''c''"
    "pkgmgr ?fl = ''vcpkg''" "projectName ?fl = ''demo''"
    by (simp_all add: demo17_flags_def)
  have n: "ProjectName (projectData ?fl v) = ProjectName (projectData demo17_flags v)"
    by (simp add: projectData_def split: prod.splits)
  have "tools_succeed e (projectData ?fl v)" "fresh (projectData ?fl v) f0"
    using h tools_succeed_name [OF n] fresh_name [OF n] by blast+
  from main_manifest [OF fl(1-3) _ assms this] h
  show "fs (snd (main e ?fl f0)) [''demo'', ''CMakeLists.txt'']
          = Some (File (cmakeTemplate (projectData ?fl v)))"
    unfolding fl(4) by blast
qed

theorem example_manifest_directives_witness:
  "FindStringSubmatch ''cmake version 3.28.1\<newline>\<newline>CMake suite maintained and supported by Kitware (kitware.com/cmake).\<newline>'' = Some ''3.28.1''
   \<and> cmake_run clone_env = Inr ''cmake version 3.28.1\<newline>\<newline>CMake suite maintained and supported by Kitware (kitware.com/cmake).\<newline>''
   \<and> tools_succeed clone_env (projectData demo17_flags ''3.28.1'')
   \<and> fresh (projectData demo17_flags ''3.28.1'') Map.empty
   \<and> createCMakeLists clone_env (projectData demo17_flags ''3.28.1'')
         \<lparr>fs = [[''demo''] \<mapsto> Dir], stdout = [], procs = []\<rparr> =
       Return \<lparr>fs = [[''demo''] \<mapsto> Dir,
                     [''demo'', ''CMakeLists.txt''] \<mapsto> File (cmakeTemplate (projectData demo17_flags ''3.28.1''))],
               stdout = [], procs = []\<rparr>
   \<and> createCMakeLists clone_env (projectData (demo17_flags\<lparr>lang := ''c''\<rparr>) ''3.28.1'')
         \<lparr>fs = [[''demo''] \<mapsto> Dir], stdout = [], procs = []\<rparr> =
       Return \<lparr>fs = [[''demo''] \<mapsto> Dir,
                     [''demo'', ''CMakeLists.txt''] \<mapsto>
                       File (cmakeTemplate (projectData (demo17_flags\<lparr>lang := ''c''\<rparr>) ''3.28.1''))],
               stdout = [], procs = []\<rparr>
   \<and> fs (snd (main clone_env demo17_flags Map.empty)) [''demo'', ''CMakeLists.txt'']
       = Some (File (cmakeTemplate (projectData demo17_flags ''3.28.1'')))
   \<and> fs (snd (main clone_env (demo17_flags\<lparr>lang := ''c''\<rparr>) Map.empty)) [''demo'', ''CMakeLists.txt'']
       = Some (File (cmakeTemplate (projectData (demo17_flags\<lparr>lang := ''c''\<rparr>) ''3.28.1'')))
   \<and> sublist ''\<newline>set(CMAKE_CXX_STANDARD 17)\<newline>'' (cmakeTemplate (projectData demo17_flags ''3.28.1''))
   \<and> sublist ''\<newline>add_executable(demo src/main.cpp)\<newline>'' (cmakeTemplate (projectData demo17_flags ''3.28.1''))
   \<and> \<not> sublist ''CMAKE_CXX_STANDARD'' (cmakeTemplate (projectData (demo17_flags\<lparr>lang := ''c''\<rparr>) ''3.28.1''))
   \<and> sublist ''\<newline>set(CMAKE_C_STANDARD 17)\<newline>''
       (cmakeTemplate (projectData (demo17_flags\<lparr>lang := ''c''\<rparr>) ''3.28.1''))"
proof -
  let ?d = "projectData demo17_flags ''3.28.1''"
  let ?dc = "projectData (demo17_flags\<lparr>lang := ''c''\<rparr>) ''3.28.1''"
  let ?W = "\<lparr>fs = [[''demo''] \<mapsto> Dir], stdout = [], procs = []\<rparr>"
  have n: "ProjectName ?d = ''demo''" "ProjectName ?dc = ''demo''"
    by (simp_all add: projectData_def demo17_flags_def)
  have t: "tools_succeed clone_env ?d"
    using n(1) by (rule clone_tools_succeed)
  have f: "fresh ?d Map.empty"
    by (rule empty_fresh)
  have w1: "createCMakeLists clone_env ?d ?W =
       Return \<lparr>fs = [[''demo''] \<mapsto> Dir, [''demo'', ''CMakeLists.txt''] \<mapsto> File (cmakeTemplate ?d)],
               stdout = [], procs = []\<rparr>"
    unfolding createCMakeLists_def n
    by (simp add: os_Create_def file_Write_def clone_env_def demo_env_def)
  have w2: "createCMakeLists clone_env ?dc ?W =
       Return \<lparr>fs = [[''demo''] \<mapsto> Dir, [''demo'', ''CMakeLists.txt''] \<mapsto> File (cmakeTemplate ?dc)],
               stdout = [], procs = []\<rparr>"
    unfolding createCMakeLists_def n
    by (simp add: os_Create_def file_Write_def clone_env_def demo_env_def)
  note a = example_manifest_directives [OF demo_version, where e = clone_env and ?f0.0 = Map.empty and w = ?W]
  from a clone_version t f have files:
    "fs (snd (main clone_env demo17_flags Map.empty)) [''demo'', ''CMakeLists.txt'']
       = Some (File (cmakeTemplate ?d))"
    "fs (snd (main clone_env (demo17_flags\<lparr>lang := ''c''\<rparr>) Map.empty)) [''demo'', ''CMakeLists.txt'']
       = Some (File (cmakeTemplate ?dc))"
    by blast+
  from a have lines:
    "sublist ''\<newline>set(CMAKE_CXX_STANDARD 17)\<newline>'' (cmakeTemplate ?d)"
    "sublist ''\<newline>add_executable(demo src/main.cpp)\<newline>'' (cmakeTemplate ?d)"
    "\<not> sublist ''CMAKE_CXX_STANDARD'' (cmakeTemplate ?dc)"
    "sublist ''\<newline>set(CMAKE_C_STANDARD 17)\<newline>'' (cmakeTemplate ?dc)"
    by blast+
  show ?thesis
    by (intro conjI demo_version clone_version t f w1 w2 files lines)
qed

section \<open>Type and standard are not validated\<close>




end
